theory Spec2Isabelle
  imports Main "HOL-Library.Word" "HOL-Library.Sublist"
begin

section \<open>DOM fragment shared by the auto-sizing widgets\<close>

text \<open>
  The widgets of \<^verbatim>\<open>field_inline_char.js\<close> and \<^verbatim>\<open>inline_many2one.js\<close> touch three
  kinds of DOM objects: the \<^verbatim>\<open>span\<close> used as sizer, the bound \<^verbatim>\<open>input\<close> element and
  \<^verbatim>\<open>document.body\<close>. A property access on \<^verbatim>\<open>null\<close> or \<^verbatim>\<open>undefined\<close> raises a
  \<^verbatim>\<open>TypeError\<close>; it is a value of the model.
\<close>

datatype error = TypeError

type_synonym node = nat

text \<open>A \<^verbatim>\<open>span\<close> element: its text and the four style properties the code assigns.\<close>

record span_el =
  textContent :: string
  style_position :: string
  style_visibility :: string
  style_whiteSpace :: string
  style_font :: string

text \<open>\<^verbatim>\<open>style.width\<close>: not set, or the string \<^verbatim>\<open>`${n}px`\<close>, kept as the number \<open>n\<close>.\<close>

datatype css_width = Unset | Px nat

text \<open>
  An \<^verbatim>\<open>input\<close> element: \<^verbatim>\<open>input.value\<close>, \<^verbatim>\<open>input.placeholder\<close> (both always
  strings in the DOM), the font that \<^verbatim>\<open>getComputedStyle(input).font\<close> reports, and
  \<^verbatim>\<open>input.style.width\<close>.
\<close>

record input_el =
  input_value :: string
  placeholder :: string
  computed_font :: string
  style_width :: css_width

text \<open>
  The document: a store of the span elements created so far (references are node
  numbers), the children of \<^verbatim>\<open>document.body\<close> in order, the font that
  \<^verbatim>\<open>getComputedStyle(document.body).font\<close> reports and the next unused node number.
\<close>

record document =
  spans :: "node \<Rightarrow> span_el"
  body_children :: "node list"
  body_font :: string
  fresh :: node

text \<open>
  The layout engine is outside the repository: \<^verbatim>\<open>offsetWidth\<close> of a span and
  \<^verbatim>\<open>scrollWidth\<close> of an input are functions of the element as it stands when read.
\<close>

record layout =
  offsetWidth :: "span_el \<Rightarrow> nat"
  scrollWidth :: "input_el \<Rightarrow> nat"

definition blank_span :: span_el where
  "blank_span = \<lparr>textContent = [], style_position = [], style_visibility = [],
                  style_whiteSpace = [], style_font = []\<rparr>"

text \<open>\<^verbatim>\<open>document.createElement("span")\<close>: a new, detached element.\<close>

definition createElement :: "document \<Rightarrow> node \<times> document" where
  "createElement d =
     (fresh d, d\<lparr>spans := (spans d)(fresh d := blank_span), fresh := Suc (fresh d)\<rparr>)"

text \<open>\<^verbatim>\<open>document.body.appendChild(n)\<close>: \<open>n\<close> becomes the last child (moved if it was one).\<close>

definition appendChild :: "document \<Rightarrow> node \<Rightarrow> document" where
  "appendChild d n = d\<lparr>body_children := filter (\<lambda>m. m \<noteq> n) (body_children d) @ [n]\<rparr>"

text \<open>\<^verbatim>\<open>n.remove()\<close>: \<open>n\<close> leaves its parent.\<close>

definition remove_node :: "document \<Rightarrow> node \<Rightarrow> document" where
  "remove_node d n = d\<lparr>body_children := filter (\<lambda>m. m \<noteq> n) (body_children d)\<rparr>"

text \<open>JavaScript \<^verbatim>\<open>a || b\<close> on strings: the empty string is the only falsy string.\<close>

definition or_str :: "string \<Rightarrow> string \<Rightarrow> string" where
  "or_str a b = (if a \<noteq> [] then a else b)"

text \<open>\<^verbatim>\<open>a || b\<close> where \<open>a\<close> may be \<^verbatim>\<open>null\<close> or \<^verbatim>\<open>undefined\<close> (\<open>None\<close>).\<close>

definition or_opt :: "string option \<Rightarrow> string \<Rightarrow> string" where
  "or_opt a b = (case a of None \<Rightarrow> b | Some s \<Rightarrow> or_str s b)"


section \<open>The auto-sizing widgets\<close>

subsection \<open>Creating the sizer\<close>

text \<open>
  The body of \<^verbatim>\<open>_createSizer\<close>, the same text in every class that has it, on the
  instance's \<^verbatim>\<open>_sizer\<close> reference (\<open>None\<close> for \<^verbatim>\<open>undefined\<close> and \<^verbatim>\<open>null\<close>) and the
  document.
\<close>

definition createSizer :: "node option \<Rightarrow> document \<Rightarrow> node option \<times> document" where
  "createSizer sz d =
     (case sz of
        Some s \<Rightarrow> (Some s, d)
      | None \<Rightarrow>
          (let (n, d1) = createElement d;
               d2 = d1\<lparr>spans := (spans d1)(n := (spans d1 n)
                      \<lparr>style_position := ''absolute'', style_visibility := ''hidden'',
                       style_whiteSpace := ''pre'', style_font := body_font d1\<rparr>)\<rparr>
           in (Some n, appendChild d2 n)))"

subsection \<open>\<^verbatim>\<open>InlineCharField\<close>\<close>

text \<open>
  The instance: \<^verbatim>\<open>this.input.el\<close> (\<open>None\<close> when the reference is \<^verbatim>\<open>null\<close>) and
  \<^verbatim>\<open>this._sizer\<close>. A state is the instance together with the document.
\<close>

record char_field =
  cf_input :: "input_el option"
  cf_sizer :: "node option"

type_synonym char_state = "char_field \<times> document"

definition InlineCharField_createSizer :: "char_state \<Rightarrow> char_state" where
  "InlineCharField_createSizer st =
     (case st of (w, d) \<Rightarrow>
        (case createSizer (cf_sizer w) d of (s, d') \<Rightarrow> (w\<lparr>cf_sizer := s\<rparr>, d')))"

definition InlineCharField_resizeInput :: "layout \<Rightarrow> char_state \<Rightarrow> error + char_state" where
  "InlineCharField_resizeInput env st =
     (case st of (w, d) \<Rightarrow>
        (case cf_input w of
           None \<Rightarrow> Inr (w, d)
         | Some inp \<Rightarrow>
             if input_value inp \<noteq> [] then
               (let inp1 = inp\<lparr>style_width := Px 1\<rparr>;
                    inp2 = inp1\<lparr>style_width := Px (scrollWidth env inp1 + 2)\<rparr>
                in Inr (w\<lparr>cf_input := Some inp2\<rparr>, d))
             else
               (case cf_sizer w of
                  None \<Rightarrow> Inl TypeError
                | Some s \<Rightarrow>
                    (let d1 = d\<lparr>spans := (spans d)(s := (spans d s)
                                 \<lparr>textContent := or_str (placeholder inp) []\<rparr>)\<rparr>;
                         d2 = d1\<lparr>spans := (spans d1)(s := (spans d1 s)
                                 \<lparr>style_font := computed_font inp\<rparr>)\<rparr>;
                         inp' = inp\<lparr>style_width := Px (offsetWidth env (spans d2 s) + 10)\<rparr>
                     in Inr (w\<lparr>cf_input := Some inp'\<rparr>, d2)))))"

text \<open>The callback given to \<^verbatim>\<open>onMounted\<close> in \<^verbatim>\<open>setup\<close>.\<close>

definition InlineCharField_onMounted :: "layout \<Rightarrow> char_state \<Rightarrow> error + char_state" where
  "InlineCharField_onMounted env st =
     InlineCharField_resizeInput env (InlineCharField_createSizer st)"

definition InlineCharField_onInputType :: "layout \<Rightarrow> char_state \<Rightarrow> error + char_state" where
  "InlineCharField_onInputType env st = InlineCharField_resizeInput env st"

text \<open>
  \<^verbatim>\<open>willUnmount\<close>. The call \<^verbatim>\<open>super.willUnmount?.()\<close> belongs to the host framework;
  it is the parameter \<open>host\<close>, which sees the bound input only (the identity when the
  parent class has no such method).
\<close>

definition InlineCharField_willUnmount ::
  "(input_el option \<Rightarrow> input_el option) \<Rightarrow> char_state \<Rightarrow> char_state" where
  "InlineCharField_willUnmount host st =
     (case st of (w0, d) \<Rightarrow>
        (let w = w0\<lparr>cf_input := host (cf_input w0)\<rparr>
         in case cf_sizer w of
              Some s \<Rightarrow> (w\<lparr>cf_sizer := None\<rparr>, remove_node d s)
            | None \<Rightarrow> (w, d)))"

subsection \<open>\<^verbatim>\<open>AutoMany2XAutocomplete\<close>\<close>

text \<open>
  The element behind \<^verbatim>\<open>this.autoCompleteContainer.el\<close> answers
  \<^verbatim>\<open>querySelector('input')\<close> with an input element or \<^verbatim>\<open>null\<close>.
\<close>

record container_el =
  query_input :: "input_el option"

text \<open>
  The instance: \<^verbatim>\<open>this.autoCompleteContainer.el\<close> and \<^verbatim>\<open>this._sizer\<close>.
\<close>

record m2x_autocomplete =
  ac_container :: "container_el option"
  ac_sizer :: "node option"

type_synonym m2x_state = "m2x_autocomplete \<times> document"

definition AutoMany2XAutocomplete_createSizer :: "m2x_state \<Rightarrow> m2x_state" where
  "AutoMany2XAutocomplete_createSizer st =
     (case st of (w, d) \<Rightarrow>
        (case createSizer (ac_sizer w) d of (s, d') \<Rightarrow> (w\<lparr>ac_sizer := s\<rparr>, d')))"

text \<open>\<^verbatim>\<open>_resizeInput(defaultValue = null)\<close>.\<close>

definition AutoMany2XAutocomplete_resizeInput ::
  "layout \<Rightarrow> string option \<Rightarrow> m2x_state \<Rightarrow> error + m2x_state" where
  "AutoMany2XAutocomplete_resizeInput env defaultValue st =
     (case st of (w, d) \<Rightarrow>
        (case ac_container w of
           None \<Rightarrow> Inl TypeError
         | Some c \<Rightarrow>
             (case query_input c of
                None \<Rightarrow> Inr (w, d)
              | Some inp \<Rightarrow>
                  (let v = or_opt defaultValue
                             (or_str (input_value inp) (or_str (placeholder inp) []))
                   in case ac_sizer w of
                        None \<Rightarrow> Inl TypeError
                      | Some s \<Rightarrow>
                          (let d1 = d\<lparr>spans := (spans d)(s := (spans d s)
                                       \<lparr>textContent := v\<rparr>)\<rparr>;
                               d2 = d1\<lparr>spans := (spans d1)(s := (spans d1 s)
                                       \<lparr>style_font := computed_font inp\<rparr>)\<rparr>;
                               targetWidth = offsetWidth env (spans d2 s) + 20;
                               inp' = inp\<lparr>style_width := Px targetWidth\<rparr>
                           in Inr (w\<lparr>ac_container := Some (c\<lparr>query_input := Some inp'\<rparr>)\<rparr>,
                                   d2))))))"

definition AutoMany2XAutocomplete_onMounted :: "layout \<Rightarrow> m2x_state \<Rightarrow> error + m2x_state" where
  "AutoMany2XAutocomplete_onMounted env st =
     AutoMany2XAutocomplete_resizeInput env None (AutoMany2XAutocomplete_createSizer st)"

text \<open>
  \<^verbatim>\<open>onChange\<close> and \<^verbatim>\<open>onSelect\<close> first run the parent's handler, host code given as
  the parameter \<open>host\<close>, which sees the container element only.
\<close>

definition host_call ::
  "(container_el option \<Rightarrow> container_el option) \<Rightarrow> m2x_state \<Rightarrow> m2x_state" where
  "host_call host st = (case st of (w, d) \<Rightarrow> (w\<lparr>ac_container := host (ac_container w)\<rparr>, d))"

definition AutoMany2XAutocomplete_onChange ::
  "(container_el option \<Rightarrow> container_el option) \<Rightarrow> layout \<Rightarrow> m2x_state \<Rightarrow> error + m2x_state" where
  "AutoMany2XAutocomplete_onChange host env st =
     AutoMany2XAutocomplete_resizeInput env None (host_call host st)"

text \<open>\<open>displayName\<close> is \<^verbatim>\<open>option.displayName\<close>, \<open>None\<close> when the option has none.\<close>

definition AutoMany2XAutocomplete_onSelect ::
  "(container_el option \<Rightarrow> container_el option) \<Rightarrow> layout \<Rightarrow> string option \<Rightarrow>
     m2x_state \<Rightarrow> error + m2x_state" where
  "AutoMany2XAutocomplete_onSelect host env displayName st =
     AutoMany2XAutocomplete_resizeInput env displayName (host_call host st)"

text \<open>
  The class defines no unmount hook: when the component unmounts only the host's own
  teardown runs, again \<open>host\<close>.
\<close>

definition AutoMany2XAutocomplete_unmount ::
  "(container_el option \<Rightarrow> container_el option) \<Rightarrow> m2x_state \<Rightarrow> m2x_state" where
  "AutoMany2XAutocomplete_unmount host st = host_call host st"


section \<open>The fees list view (\<^verbatim>\<open>page_list.js\<close>)\<close>

text \<open>
  What \<^verbatim>\<open>onClickCreate\<close> reaches through \<^verbatim>\<open>this\<close>: the action service, whose
  \<^verbatim>\<open>doAction\<close> is host code with results of some type \<open>'r\<close>.
\<close>

record 'r action_service =
  doAction :: "string \<Rightarrow> 'r"

record 'r controller_this =
  actionService :: "'r action_service"

text \<open>
  A controller class is the record of its methods and a view descriptor the record of
  its keys; both are extensible, so that \<^verbatim>\<open>extends\<close> and \<^verbatim>\<open>{...listView, k: v}\<close> keep
  whatever else the host put there.
\<close>

record 'r controller_class =
  onClickCreate :: "'r controller_this \<Rightarrow> 'r"

record ('r, 'm) view_descr =
  Controller :: "('r, 'm) controller_class_scheme"

definition PageListController ::
  "('r, 'm) controller_class_scheme \<Rightarrow> ('r, 'm) controller_class_scheme" where
  "PageListController listView_Controller =
     listView_Controller\<lparr>onClickCreate :=
       (\<lambda>this. doAction (actionService this) ''openeducat_fees.action_select_fees_term_type'')\<rparr>"

definition PageListView ::
  "('r, 'm, 'k) view_descr_scheme \<Rightarrow> ('r, 'm, 'k) view_descr_scheme" where
  "PageListView listView = listView\<lparr>Controller := PageListController (Controller listView)\<rparr>"

text \<open>\<^verbatim>\<open>registry.category("views").add(key, value)\<close> on the registry's content.\<close>

definition registry_add :: "(string \<rightharpoonup> 'v) \<Rightarrow> string \<Rightarrow> 'v \<Rightarrow> (string \<rightharpoonup> 'v)" where
  "registry_add reg k v = reg(k \<mapsto> v)"

text \<open>The effect of loading the module on the \<^verbatim>\<open>views\<close> category.\<close>

definition page_list_module ::
  "('r, 'm, 'k) view_descr_scheme \<Rightarrow> (string \<rightharpoonup> ('r, 'm, 'k) view_descr_scheme) \<Rightarrow>
     (string \<rightharpoonup> ('r, 'm, 'k) view_descr_scheme)" where
  "page_list_module listView views = registry_add views ''fees_wizard_list'' (PageListView listView)"

section \<open>\<^verbatim>\<open>PageUrlField\<close> and \<^verbatim>\<open>FeesTermsDisplay\<close>\<close>

subsection \<open>The \<^verbatim>\<open>value\<close> getter of \<^verbatim>\<open>PageUrlField\<close>\<close>

text \<open>
  A JavaScript string is a sequence of UTF-16 code units. \<^verbatim>\<open>trim\<close> removes white
  space and line terminators from both ends.
\<close>

type_synonym js_string = "16 word list"

definition js_whitespace :: "16 word \<Rightarrow> bool" where
  "js_whitespace c \<longleftrightarrow>
     c \<in> set [0x0009, 0x000A, 0x000B, 0x000C, 0x000D, 0x0020, 0x00A0, 0x1680,
              0x2000, 0x2001, 0x2002, 0x2003, 0x2004, 0x2005, 0x2006, 0x2007, 0x2008,
              0x2009, 0x200A, 0x2028, 0x2029, 0x202F, 0x205F, 0x3000, 0xFEFF]"

definition trim :: "js_string \<Rightarrow> js_string" where
  "trim s = rev (dropWhile js_whitespace (rev (dropWhile js_whitespace s)))"

definition slash :: "16 word" where
  "slash = 0x002F"

text \<open>\<^verbatim>\<open>this.props\<close>: the field name and the record's \<^verbatim>\<open>data\<close> object.\<close>

record url_props =
  props_name :: string
  record_data :: "string \<rightharpoonup> js_string"

text \<open>
  The getter. \<^verbatim>\<open>super.value\<close> is the host's getter; its result is the argument
  \<open>super_value\<close>. The getter returns a string and leaves \<^verbatim>\<open>props\<close> changed.
\<close>

definition PageUrlField_value :: "js_string \<Rightarrow> url_props \<Rightarrow> js_string \<times> url_props" where
  "PageUrlField_value super_value props =
     (let v = (case super_value of
                 [] \<Rightarrow> super_value
               | c # rest \<Rightarrow> if c = slash then rest else super_value)
      in (v, props\<lparr>record_data := (record_data props)(props_name props \<mapsto> slash # trim v)\<rparr>))"

subsection \<open>\<^verbatim>\<open>FeesTermsDisplay.setup\<close>\<close>

text \<open>
  The values a selection entry or a record field may hold, with JavaScript's truthiness
  and \<^verbatim>\<open>||\<close>. Numbers are the integers (\<^verbatim>\<open>NaN\<close> does not occur in record data).
\<close>

datatype js_value = Undefined | Null | Bool bool | Num int | Str string

fun truthy :: "js_value \<Rightarrow> bool" where
  "truthy Undefined = False"
| "truthy Null = False"
| "truthy (Bool b) = b"
| "truthy (Num n) = (n \<noteq> 0)"
| "truthy (Str s) = (s \<noteq> [])"

definition js_or :: "js_value \<Rightarrow> js_value \<Rightarrow> js_value" where
  "js_or a b = (if truthy a then a else b)"

text \<open>\<^verbatim>\<open>item[i]\<close> on an array: \<^verbatim>\<open>undefined\<close> beyond its length.\<close>

definition item_at :: "js_value list \<Rightarrow> nat \<Rightarrow> js_value" where
  "item_at item i = (if i < length item then item ! i else Undefined)"

text \<open>\<^verbatim>\<open>obj[k]\<close> on an object: \<^verbatim>\<open>undefined\<close> for a key it does not have.\<close>

definition js_get :: "(string \<rightharpoonup> js_value) \<Rightarrow> string \<Rightarrow> js_value" where
  "js_get obj k = (case obj k of None \<Rightarrow> Undefined | Some v \<Rightarrow> v)"

record field_descr =
  selection :: "js_value list list option"

record fees_props =
  fees_name :: string
  fees_fields :: "string \<rightharpoonup> field_descr"
  fees_data :: "string \<rightharpoonup> js_value"

record fees_term =
  term_value :: js_value
  term_label :: js_value
  term_description :: js_value

text \<open>
  \<^verbatim>\<open>setup\<close> returns the list it stores in \<^verbatim>\<open>this.terms\<close>. Reading \<^verbatim>\<open>.selection\<close>
  of a missing field, or calling \<^verbatim>\<open>.filter\<close> on a missing selection, raises.
\<close>

definition FeesTermsDisplay_setup :: "fees_props \<Rightarrow> error + fees_term list" where
  "FeesTermsDisplay_setup props =
     (case fees_fields props (fees_name props) of
        None \<Rightarrow> Inl TypeError
      | Some f \<Rightarrow>
          (case selection f of
             None \<Rightarrow> Inl TypeError
           | Some sel \<Rightarrow>
               Inr (map (\<lambda>item. \<lparr>term_value = item_at item 0,
                                  term_label = item_at item 1,
                                  term_description =
                                    js_or (js_get (fees_data props) ''fees_terms_description'')
                                          (Str [])\<rparr>)
                        (filter (\<lambda>item. truthy (js_or (item_at item 0) (item_at item 1))) sel))))"

text \<open>
  The terms list as the specification words it: the entries whose value or label is
  truthy, in selection order, each with the description or the empty string.
\<close>

fun spec_terms :: "js_value \<Rightarrow> js_value list list \<Rightarrow> fees_term list" where
  "spec_terms descr [] = []"
| "spec_terms descr (item # rest) =
     (if truthy (item_at item 0) \<or> truthy (item_at item 1)
      then \<lparr>term_value = item_at item 0, term_label = item_at item 1,
            term_description = (if truthy descr then descr else Str [])\<rparr>
           # spec_terms descr rest
      else spec_terms descr rest)"

section \<open>The mounted life of a widget\<close>

text \<open>
  The host runs the callback given to \<^verbatim>\<open>onMounted\<close> when the component is mounted
  and the event handlers afterwards, while it is mounted. Before an input event of the
  char field the browser has changed the bound input (the user typed or cleared it):
  each event carries that change. An error in any handler ends the run.
\<close>

fun InlineCharField_events ::
  "layout \<Rightarrow> (input_el option \<Rightarrow> input_el option) list \<Rightarrow> char_state \<Rightarrow> error + char_state" where
  "InlineCharField_events env [] st = Inr st"
| "InlineCharField_events env (edit # edits) st =
     (case InlineCharField_onInputType env
             ((fst st)\<lparr>cf_input := edit (cf_input (fst st))\<rparr>, snd st) of
        Inl e \<Rightarrow> Inl e
      | Inr st' \<Rightarrow> InlineCharField_events env edits st')"

definition InlineCharField_life ::
  "layout \<Rightarrow> (input_el option \<Rightarrow> input_el option) list \<Rightarrow> char_state \<Rightarrow> error + char_state" where
  "InlineCharField_life env edits st =
     (case InlineCharField_onMounted env st of
        Inl e \<Rightarrow> Inl e
      | Inr st' \<Rightarrow> InlineCharField_events env edits st')"

text \<open>
  The autocomplete's events: a change, or a selection with the option's display name;
  each with what the parent's handler does to the container.
\<close>

datatype m2x_event =
  Change "container_el option \<Rightarrow> container_el option"
| Select "container_el option \<Rightarrow> container_el option" "string option"

fun event_host :: "m2x_event \<Rightarrow> container_el option \<Rightarrow> container_el option" where
  "event_host (Change host) = host"
| "event_host (Select host displayName) = host"

fun AutoMany2XAutocomplete_events ::
  "layout \<Rightarrow> m2x_event list \<Rightarrow> m2x_state \<Rightarrow> error + m2x_state" where
  "AutoMany2XAutocomplete_events env [] st = Inr st"
| "AutoMany2XAutocomplete_events env (Change host # evs) st =
     (case AutoMany2XAutocomplete_onChange host env st of
        Inl e \<Rightarrow> Inl e
      | Inr st' \<Rightarrow> AutoMany2XAutocomplete_events env evs st')"
| "AutoMany2XAutocomplete_events env (Select host displayName # evs) st =
     (case AutoMany2XAutocomplete_onSelect host env displayName st of
        Inl e \<Rightarrow> Inl e
      | Inr st' \<Rightarrow> AutoMany2XAutocomplete_events env evs st')"

definition AutoMany2XAutocomplete_life ::
  "layout \<Rightarrow> m2x_event list \<Rightarrow> m2x_state \<Rightarrow> error + m2x_state" where
  "AutoMany2XAutocomplete_life env evs st =
     (case AutoMany2XAutocomplete_onMounted env st of
        Inl e \<Rightarrow> Inl e
      | Inr st' \<Rightarrow> AutoMany2XAutocomplete_events env evs st')"

section \<open>Sample values\<close>

text \<open>
  A layout in which a character is 7 pixels wide (9 in the font \<^verbatim>\<open>16px serif\<close>) and an
  input has 6 pixels of inner padding; an empty document; inputs and widget instances
  over them.
\<close>

definition layout0 :: layout where
  "layout0 = \<lparr>offsetWidth = (\<lambda>sp. (if style_font sp = ''16px serif'' then 9 else 7)
                                   * length (textContent sp)),
              scrollWidth = (\<lambda>i. 7 * length (input_value i) + 6)\<rparr>"

definition doc0 :: document where
  "doc0 = \<lparr>spans = (\<lambda>_. blank_span), body_children = [], body_font = ''12px sans'', fresh = 0\<rparr>"

definition input_abc :: input_el where
  "input_abc = \<lparr>input_value = ''abc'', placeholder = ''Name'', computed_font = ''12px sans'',
                style_width = Unset\<rparr>"

definition input_empty :: input_el where
  "input_empty = \<lparr>input_value = [], placeholder = ''Name'', computed_font = ''16px serif'',
                  style_width = Unset\<rparr>"


text \<open>The document once a first sizer (node 0) has been created in it.\<close>

definition doc1 :: document where
  "doc1 = snd (createSizer None doc0)"

definition char_typed :: char_field where
  "char_typed = \<lparr>cf_input = Some input_abc, cf_sizer = Some 0\<rparr>"

definition char_blank :: char_field where
  "char_blank = \<lparr>cf_input = Some input_empty, cf_sizer = Some 0\<rparr>"

definition char_no_sizer :: char_field where
  "char_no_sizer = \<lparr>cf_input = Some input_empty, cf_sizer = None\<rparr>"

definition m2x_new :: m2x_autocomplete where
  "m2x_new = \<lparr>ac_container = Some \<lparr>query_input = Some input_abc\<rparr>, ac_sizer = None\<rparr>"

definition m2x_blank :: m2x_autocomplete where
  "m2x_blank = \<lparr>ac_container = Some \<lparr>query_input = Some input_empty\<rparr>, ac_sizer = Some 0\<rparr>"

text \<open>A host list view whose default create button yields 0, and an action service.\<close>

definition listView0 :: "(nat, unit, unit) view_descr_scheme" where
  "listView0 = \<lparr>Controller = \<lparr>onClickCreate = (\<lambda>_. 0)\<rparr>\<rparr>"

definition this0 :: "nat controller_this" where
  "this0 = \<lparr>actionService = \<lparr>doAction = length\<rparr>\<rparr>"

text \<open>The strings \<^verbatim>\<open>"/a "\<close> and \<^verbatim>\<open>"a "\<close>, and props of a field \<^verbatim>\<open>url\<close>.\<close>

definition url_slash_a :: js_string where
  "url_slash_a = [0x002F, 0x0061, 0x0020]"

definition url_props0 :: url_props where
  "url_props0 = \<lparr>props_name = ''url'', record_data = Map.empty\<rparr>"

text \<open>A selection with one entry that has neither value nor label.\<close>

definition fees_props0 :: fees_props where
  "fees_props0 =
     \<lparr>fees_name = ''term_type'',
      fees_fields = [''term_type'' \<mapsto> \<lparr>selection = Some
                       [[Str ''fixed_days'', Str ''Fixed Days''],
                        [Bool False, Str []],
                        [Str [], Str ''Other'']]\<rparr>],
      fees_data = [''fees_terms_description'' \<mapsto> Bool False]\<rparr>"

text \<open>
  Changes to a bound input: the user types \<^verbatim>\<open>ab\<close>, clears the field, or the
  element goes away. For the autocomplete the same inside the container.
\<close>

definition type_ab :: "input_el option \<Rightarrow> input_el option" where
  "type_ab = map_option (\<lambda>i. i\<lparr>input_value := ''ab''\<rparr>)"

definition clear_value :: "input_el option \<Rightarrow> input_el option" where
  "clear_value = map_option (\<lambda>i. i\<lparr>input_value := []\<rparr>)"

definition drop_input :: "input_el option \<Rightarrow> input_el option" where
  "drop_input = (\<lambda>_. None)"

definition in_container ::
  "(input_el option \<Rightarrow> input_el option) \<Rightarrow> container_el option \<Rightarrow> container_el option" where
  "in_container edit = map_option (\<lambda>c. c\<lparr>query_input := edit (query_input c)\<rparr>)"

section \<open>Facts about the DOM operations\<close>

lemma or_str_empty [simp]: "or_str p [] = p"
  by (simp add: or_str_def)

lemma createSizer_Some: "createSizer (Some s) d = (Some s, d)"
  by (simp add: createSizer_def)

lemma createSizer_None:
  "createSizer None d =
     (Some (fresh d),
      d\<lparr>spans := (spans d)(fresh d := blank_span
           \<lparr>style_position := ''absolute'', style_visibility := ''hidden'',
            style_whiteSpace := ''pre'', style_font := body_font d\<rparr>),
        fresh := Suc (fresh d),
        body_children := filter (\<lambda>m. m \<noteq> fresh d) (body_children d) @ [fresh d]\<rparr>)"
  by (simp add: createSizer_def createElement_def appendChild_def)

lemma char_create_twice:
  "InlineCharField_createSizer (InlineCharField_createSizer st) = InlineCharField_createSizer st"
proof (cases st)
  case (Pair w d)
  then show ?thesis
    by (cases "cf_sizer w")
      (simp_all add: InlineCharField_createSizer_def createSizer_Some createSizer_None)
qed

lemma m2x_create_twice:
  "AutoMany2XAutocomplete_createSizer (AutoMany2XAutocomplete_createSizer st) =
     AutoMany2XAutocomplete_createSizer st"
proof (cases st)
  case (Pair w d)
  then show ?thesis
    by (cases "ac_sizer w")
      (simp_all add: AutoMany2XAutocomplete_createSizer_def createSizer_Some createSizer_None)
qed

lemma funpow_idem: "(\<And>x. f (f x) = f x) \<Longrightarrow> (f ^^ Suc n) x = f x"
  by (induction n) simp_all

lemma char_create_body:
  "body_children (snd (InlineCharField_createSizer st)) =
     (case cf_sizer (fst st) of
        Some s \<Rightarrow> body_children (snd st)
      | None \<Rightarrow> filter (\<lambda>m. m \<noteq> fresh (snd st)) (body_children (snd st)) @ [fresh (snd st)])"
  by (cases st; cases "cf_sizer (fst st)")
    (simp_all add: InlineCharField_createSizer_def createSizer_Some createSizer_None)

lemma m2x_create_body:
  "body_children (snd (AutoMany2XAutocomplete_createSizer st)) =
     (case ac_sizer (fst st) of
        Some s \<Rightarrow> body_children (snd st)
      | None \<Rightarrow> filter (\<lambda>m. m \<noteq> fresh (snd st)) (body_children (snd st)) @ [fresh (snd st)])"
  by (cases st; cases "ac_sizer (fst st)")
    (simp_all add: AutoMany2XAutocomplete_createSizer_def createSizer_Some createSizer_None)

lemma char_create_sizer:
  "cf_sizer (fst (InlineCharField_createSizer st)) =
     (case cf_sizer (fst st) of Some s \<Rightarrow> Some s | None \<Rightarrow> Some (fresh (snd st)))"
  by (cases st; cases "cf_sizer (fst st)")
    (simp_all add: InlineCharField_createSizer_def createSizer_Some createSizer_None)

lemma m2x_create_sizer:
  "ac_sizer (fst (AutoMany2XAutocomplete_createSizer st)) =
     (case ac_sizer (fst st) of Some s \<Rightarrow> Some s | None \<Rightarrow> Some (fresh (snd st)))"
  by (cases st; cases "ac_sizer (fst st)")
    (simp_all add: AutoMany2XAutocomplete_createSizer_def createSizer_Some createSizer_None)

lemma char_create_input:
  "cf_input (fst (InlineCharField_createSizer st)) = cf_input (fst st)"
  by (cases st; cases "cf_sizer (fst st)")
    (simp_all add: InlineCharField_createSizer_def createSizer_Some createSizer_None)

lemma m2x_create_container:
  "ac_container (fst (AutoMany2XAutocomplete_createSizer st)) = ac_container (fst st)"
  by (cases st; cases "ac_sizer (fst st)")
    (simp_all add: AutoMany2XAutocomplete_createSizer_def createSizer_Some createSizer_None)

lemma count_list_moved_last: "count_list (filter (\<lambda>m. m \<noteq> x) xs @ [x]) x = 1"
  by (induction xs) simp_all

section \<open>Facts about the resize routines, branch by branch\<close>

lemma char_resize_absent:
  "cf_input w = None \<Longrightarrow> InlineCharField_resizeInput env (w, d) = Inr (w, d)"
  by (simp add: InlineCharField_resizeInput_def)

lemma char_resize_typed:
  "cf_input w = Some inp \<Longrightarrow> input_value inp \<noteq> [] \<Longrightarrow>
   InlineCharField_resizeInput env (w, d) =
     Inr (w\<lparr>cf_input := Some (inp\<lparr>style_width :=
            Px (scrollWidth env (inp\<lparr>style_width := Px 1\<rparr>) + 2)\<rparr>)\<rparr>, d)"
  by (simp add: InlineCharField_resizeInput_def)

lemma char_resize_blank:
  "cf_input w = Some inp \<Longrightarrow> input_value inp = [] \<Longrightarrow> cf_sizer w = Some s \<Longrightarrow>
   InlineCharField_resizeInput env (w, d) =
     Inr (w\<lparr>cf_input := Some (inp\<lparr>style_width :=
            Px (offsetWidth env ((spans d s)\<lparr>textContent := placeholder inp,
                                              style_font := computed_font inp\<rparr>) + 10)\<rparr>)\<rparr>,
          d\<lparr>spans := (spans d)(s := (spans d s)\<lparr>textContent := placeholder inp,
                                                 style_font := computed_font inp\<rparr>)\<rparr>)"
  by (simp add: InlineCharField_resizeInput_def)

lemma char_resize_no_sizer:
  "cf_input w = Some inp \<Longrightarrow> input_value inp = [] \<Longrightarrow> cf_sizer w = None \<Longrightarrow>
   InlineCharField_resizeInput env (w, d) = Inl TypeError"
  by (simp add: InlineCharField_resizeInput_def)

lemma m2x_resize_no_container:
  "ac_container w = None \<Longrightarrow> AutoMany2XAutocomplete_resizeInput env dv (w, d) = Inl TypeError"
  by (simp add: AutoMany2XAutocomplete_resizeInput_def)

lemma m2x_resize_absent:
  "ac_container w = Some c \<Longrightarrow> query_input c = None \<Longrightarrow>
   AutoMany2XAutocomplete_resizeInput env dv (w, d) = Inr (w, d)"
  by (simp add: AutoMany2XAutocomplete_resizeInput_def)

lemma m2x_resize_no_sizer:
  "ac_container w = Some c \<Longrightarrow> query_input c = Some inp \<Longrightarrow> ac_sizer w = None \<Longrightarrow>
   AutoMany2XAutocomplete_resizeInput env dv (w, d) = Inl TypeError"
  by (simp add: AutoMany2XAutocomplete_resizeInput_def)

lemma m2x_resize_present:
  "ac_container w = Some c \<Longrightarrow> query_input c = Some inp \<Longrightarrow> ac_sizer w = Some s \<Longrightarrow>
   AutoMany2XAutocomplete_resizeInput env dv (w, d) =
     Inr (w\<lparr>ac_container := Some (c\<lparr>query_input := Some (inp\<lparr>style_width :=
            Px (offsetWidth env ((spans d s)
                  \<lparr>textContent := or_opt dv (or_str (input_value inp) (placeholder inp)),
                   style_font := computed_font inp\<rparr>) + 20)\<rparr>)\<rparr>)\<rparr>,
          d\<lparr>spans := (spans d)(s := (spans d s)
                  \<lparr>textContent := or_opt dv (or_str (input_value inp) (placeholder inp)),
                   style_font := computed_font inp\<rparr>)\<rparr>)"
  by (simp add: AutoMany2XAutocomplete_resizeInput_def Let_def)

lemma doc1_eq:
  "doc1 = \<lparr>spans = (\<lambda>_. blank_span)(0 := \<lparr>textContent = [], style_position = ''absolute'',
             style_visibility = ''hidden'', style_whiteSpace = ''pre'',
             style_font = ''12px sans''\<rparr>),
           body_children = [0], body_font = ''12px sans'', fresh = 1\<rparr>"
  by (simp add: doc1_def doc0_def createSizer_None blank_span_def)

lemma doc1_sizer:
  "spans doc1 0 = \<lparr>textContent = [], style_position = ''absolute'',
      style_visibility = ''hidden'', style_whiteSpace = ''pre'', style_font = ''12px sans''\<rparr>"
  by (simp add: doc1_eq)

section \<open>The claims about the auto-sizing widgets\<close>

text \<open>
  C7. Creating the sizer is idempotent in both classes: one call or many leave the same
  state, the body gains at most one child, and an instance that had no sizer then holds
  the one new node, which occurs once among the children of the body.
\<close>

theorem createSizer_idempotent:
  "(InlineCharField_createSizer ^^ Suc n) cst = InlineCharField_createSizer cst
   \<and> (AutoMany2XAutocomplete_createSizer ^^ Suc n) mst = AutoMany2XAutocomplete_createSizer mst
   \<and> length (body_children (snd ((InlineCharField_createSizer ^^ k) cst)))
         \<le> Suc (length (body_children (snd cst)))
   \<and> length (body_children (snd ((AutoMany2XAutocomplete_createSizer ^^ k) mst)))
         \<le> Suc (length (body_children (snd mst)))
   \<and> (cf_sizer (fst cst) = None \<longrightarrow>
        cf_sizer (fst ((InlineCharField_createSizer ^^ Suc n) cst)) = Some (fresh (snd cst))
        \<and> count_list (body_children (snd ((InlineCharField_createSizer ^^ Suc n) cst)))
             (fresh (snd cst)) = 1)
   \<and> (ac_sizer (fst mst) = None \<longrightarrow>
        ac_sizer (fst ((AutoMany2XAutocomplete_createSizer ^^ Suc n) mst)) = Some (fresh (snd mst))
        \<and> count_list (body_children (snd ((AutoMany2XAutocomplete_createSizer ^^ Suc n) mst)))
             (fresh (snd mst)) = 1)"
proof -
  have c1: "(InlineCharField_createSizer ^^ Suc j) cst = InlineCharField_createSizer cst" for j
    by (rule funpow_idem) (rule char_create_twice)
  have m1: "(AutoMany2XAutocomplete_createSizer ^^ Suc j) mst =
              AutoMany2XAutocomplete_createSizer mst" for j
    by (rule funpow_idem) (rule m2x_create_twice)
  have cl: "length (body_children (snd (InlineCharField_createSizer cst)))
              \<le> Suc (length (body_children (snd cst)))"
    by (simp add: char_create_body split: option.split)
  have ml: "length (body_children (snd (AutoMany2XAutocomplete_createSizer mst)))
              \<le> Suc (length (body_children (snd mst)))"
    by (simp add: m2x_create_body split: option.split)
  have c3: "length (body_children (snd ((InlineCharField_createSizer ^^ k) cst)))
              \<le> Suc (length (body_children (snd cst)))"
  proof (cases k)
    case 0
    then show ?thesis by simp
  next
    case (Suc j)
    then show ?thesis using c1 [of j] cl by simp
  qed
  have m3: "length (body_children (snd ((AutoMany2XAutocomplete_createSizer ^^ k) mst)))
              \<le> Suc (length (body_children (snd mst)))"
  proof (cases k)
    case 0
    then show ?thesis by simp
  next
    case (Suc j)
    then show ?thesis using m1 [of j] ml by simp
  qed
  have c5: "cf_sizer (fst cst) = None \<longrightarrow>
        cf_sizer (fst ((InlineCharField_createSizer ^^ Suc n) cst)) = Some (fresh (snd cst))
        \<and> count_list (body_children (snd ((InlineCharField_createSizer ^^ Suc n) cst)))
             (fresh (snd cst)) = 1"
    unfolding c1 by (simp add: char_create_body char_create_sizer count_list_moved_last)
  have m5: "ac_sizer (fst mst) = None \<longrightarrow>
        ac_sizer (fst ((AutoMany2XAutocomplete_createSizer ^^ Suc n) mst)) = Some (fresh (snd mst))
        \<and> count_list (body_children (snd ((AutoMany2XAutocomplete_createSizer ^^ Suc n) mst)))
             (fresh (snd mst)) = 1"
    unfolding m1 by (simp add: m2x_create_body m2x_create_sizer count_list_moved_last)
  from c1 m1 c3 m3 c5 m5 show ?thesis by blast
qed

theorem createSizer_idempotent_witness:
  "cf_sizer (fst (char_no_sizer, doc0)) = None
   \<and> ac_sizer (fst (m2x_new, doc0)) = None
   \<and> (InlineCharField_createSizer ^^ Suc 2) (char_no_sizer, doc0)
        = InlineCharField_createSizer (char_no_sizer, doc0)
   \<and> cf_sizer (fst ((InlineCharField_createSizer ^^ Suc 2) (char_no_sizer, doc0))) = Some 0
   \<and> count_list (body_children (snd ((InlineCharField_createSizer ^^ Suc 2)
        (char_no_sizer, doc0)))) 0 = 1
   \<and> ac_sizer (fst ((AutoMany2XAutocomplete_createSizer ^^ Suc 2) (m2x_new, doc0))) = Some 0
   \<and> count_list (body_children (snd ((AutoMany2XAutocomplete_createSizer ^^ Suc 2)
        (m2x_new, doc0)))) 0 = 1"
proof -
  note t = createSizer_idempotent [of 2 "(char_no_sizer, doc0)" "(m2x_new, doc0)" 0]
  have h1: "cf_sizer (fst (char_no_sizer, doc0)) = None"
    by (simp add: char_no_sizer_def)
  have h2: "ac_sizer (fst (m2x_new, doc0)) = None"
    by (simp add: m2x_new_def)
  have f1: "fresh (snd (char_no_sizer, doc0)) = 0" and f2: "fresh (snd (m2x_new, doc0)) = 0"
    by (simp_all add: doc0_def)
  from t have a: "(InlineCharField_createSizer ^^ Suc 2) (char_no_sizer, doc0)
        = InlineCharField_createSizer (char_no_sizer, doc0)"
    by blast
  from t h1 have b: "cf_sizer (fst ((InlineCharField_createSizer ^^ Suc 2) (char_no_sizer, doc0)))
         = Some (fresh (snd (char_no_sizer, doc0)))
       \<and> count_list (body_children (snd ((InlineCharField_createSizer ^^ Suc 2)
            (char_no_sizer, doc0)))) (fresh (snd (char_no_sizer, doc0))) = 1"
    by blast
  from t h2 have c: "ac_sizer (fst ((AutoMany2XAutocomplete_createSizer ^^ Suc 2) (m2x_new, doc0)))
         = Some (fresh (snd (m2x_new, doc0)))
       \<and> count_list (body_children (snd ((AutoMany2XAutocomplete_createSizer ^^ Suc 2)
            (m2x_new, doc0)))) (fresh (snd (m2x_new, doc0))) = 1"
    by blast
  from h1 h2 a b c show ?thesis
    unfolding f1 f2 by blast
qed

text \<open>
  C5. Whenever a resize that reaches the sizer succeeds, the sizer goes into the
  measurement with the font read from the input's computed style at that moment,
  whatever font it was given at creation or by an earlier resize.
\<close>

theorem resize_rereads_font:
  "(InlineCharField_resizeInput env (cw, cd) = Inr (cw', cd') \<longrightarrow>
      cf_input cw = Some cinp \<longrightarrow> input_value cinp = [] \<longrightarrow>
      (\<exists>s. cf_sizer cw = Some s
          \<and> style_font (spans cd' s) = computed_font cinp
          \<and> spans cd' s = (spans cd s)\<lparr>textContent := placeholder cinp,
                                        style_font := computed_font cinp\<rparr>
          \<and> cf_input cw' = Some (cinp\<lparr>style_width :=
                Px (offsetWidth env (spans cd' s) + 10)\<rparr>)))
   \<and> (AutoMany2XAutocomplete_resizeInput env dv (mw, md) = Inr (mw', md') \<longrightarrow>
      ac_container mw = Some c \<longrightarrow> query_input c = Some minp \<longrightarrow>
      (\<exists>s. ac_sizer mw = Some s
          \<and> style_font (spans md' s) = computed_font minp
          \<and> spans md' s = (spans md s)
               \<lparr>textContent := or_opt dv (or_str (input_value minp) (placeholder minp)),
                style_font := computed_font minp\<rparr>
          \<and> ac_container mw' = Some (c\<lparr>query_input := Some (minp\<lparr>style_width :=
                Px (offsetWidth env (spans md' s) + 20)\<rparr>)\<rparr>)))"
proof (intro conjI impI)
  assume r: "InlineCharField_resizeInput env (cw, cd) = Inr (cw', cd')"
    and i: "cf_input cw = Some cinp" and v: "input_value cinp = []"
  show "\<exists>s. cf_sizer cw = Some s
          \<and> style_font (spans cd' s) = computed_font cinp
          \<and> spans cd' s = (spans cd s)\<lparr>textContent := placeholder cinp,
                                        style_font := computed_font cinp\<rparr>
          \<and> cf_input cw' = Some (cinp\<lparr>style_width :=
                Px (offsetWidth env (spans cd' s) + 10)\<rparr>)"
  proof (cases "cf_sizer cw")
    case None
    with r i v show ?thesis by (simp add: char_resize_no_sizer)
  next
    case (Some s)
    with r i v show ?thesis by (auto simp add: char_resize_blank)
  qed
next
  assume r: "AutoMany2XAutocomplete_resizeInput env dv (mw, md) = Inr (mw', md')"
    and k: "ac_container mw = Some c" and i: "query_input c = Some minp"
  show "\<exists>s. ac_sizer mw = Some s
          \<and> style_font (spans md' s) = computed_font minp
          \<and> spans md' s = (spans md s)
               \<lparr>textContent := or_opt dv (or_str (input_value minp) (placeholder minp)),
                style_font := computed_font minp\<rparr>
          \<and> ac_container mw' = Some (c\<lparr>query_input := Some (minp\<lparr>style_width :=
                Px (offsetWidth env (spans md' s) + 20)\<rparr>)\<rparr>)"
  proof (cases "ac_sizer mw")
    case None
    with r k i show ?thesis by (simp add: m2x_resize_no_sizer)
  next
    case (Some s)
    with r k i show ?thesis by (auto simp add: m2x_resize_present)
  qed
qed

text \<open>
  The sizer of \<open>doc1\<close> was created with the body's font \<^verbatim>\<open>12px sans\<close>; the input's
  computed font is \<^verbatim>\<open>16px serif\<close>, and the four letters of the placeholder are
  measured at 9 pixels each.
\<close>

theorem resize_rereads_font_witness:
  "style_font (spans doc1 0) = ''12px sans''
   \<and> InlineCharField_resizeInput layout0 (char_blank, doc1)
       = Inr (char_blank\<lparr>cf_input := Some (input_empty\<lparr>style_width := Px 46\<rparr>)\<rparr>,
              doc1\<lparr>spans := (spans doc1)(0 := (spans doc1 0)
                 \<lparr>textContent := ''Name'', style_font := ''16px serif''\<rparr>)\<rparr>)
   \<and> AutoMany2XAutocomplete_resizeInput layout0 None (m2x_blank, doc1)
       = Inr (m2x_blank\<lparr>ac_container := Some \<lparr>query_input =
                 Some (input_empty\<lparr>style_width := Px 56\<rparr>)\<rparr>\<rparr>,
              doc1\<lparr>spans := (spans doc1)(0 := (spans doc1 0)
                 \<lparr>textContent := ''Name'', style_font := ''16px serif''\<rparr>)\<rparr>)
   \<and> (\<exists>s. cf_sizer char_blank = Some s
          \<and> style_font (spans (doc1\<lparr>spans := (spans doc1)(0 := (spans doc1 0)
                 \<lparr>textContent := ''Name'', style_font := ''16px serif''\<rparr>)\<rparr>) s) = ''16px serif'')
   \<and> (\<exists>s. ac_sizer m2x_blank = Some s
          \<and> style_font (spans (doc1\<lparr>spans := (spans doc1)(0 := (spans doc1 0)
                 \<lparr>textContent := ''Name'', style_font := ''16px serif''\<rparr>)\<rparr>) s) = ''16px serif'')"
proof -
  let ?d = "doc1\<lparr>spans := (spans doc1)(0 := (spans doc1 0)
                 \<lparr>textContent := ''Name'', style_font := ''16px serif''\<rparr>)\<rparr>"
  let ?cw = "char_blank\<lparr>cf_input := Some (input_empty\<lparr>style_width := Px 46\<rparr>)\<rparr>"
  let ?mw = "m2x_blank\<lparr>ac_container := Some \<lparr>query_input =
                 Some (input_empty\<lparr>style_width := Px 56\<rparr>)\<rparr>\<rparr>"
  have f: "style_font (spans doc1 0) = ''12px sans''"
    by (simp add: doc1_sizer)
  have rc: "InlineCharField_resizeInput layout0 (char_blank, doc1) = Inr (?cw, ?d)"
    by (simp add: char_resize_blank [where s = 0 and inp = input_empty]
        char_blank_def input_empty_def layout0_def doc1_sizer)
  have rm: "AutoMany2XAutocomplete_resizeInput layout0 None (m2x_blank, doc1) = Inr (?mw, ?d)"
    by (simp add: m2x_resize_present [where s = 0 and inp = input_empty
          and c = "\<lparr>query_input = Some input_empty\<rparr>"]
        m2x_blank_def input_empty_def layout0_def doc1_sizer or_opt_def or_str_def)
  have hc: "cf_input char_blank = Some input_empty" "input_value input_empty = []"
    by (simp_all add: char_blank_def input_empty_def)
  have hm: "ac_container m2x_blank = Some \<lparr>query_input = Some input_empty\<rparr>"
      "query_input \<lparr>query_input = Some input_empty\<rparr> = Some input_empty"
    by (simp_all add: m2x_blank_def)
  have cf: "computed_font input_empty = ''16px serif''"
    by (simp add: input_empty_def)
  note t = resize_rereads_font [of layout0 char_blank doc1 ?cw ?d input_empty
      None m2x_blank doc1 ?mw ?d "\<lparr>query_input = Some input_empty\<rparr>" input_empty]
  from t rc hc have a: "\<exists>s. cf_sizer char_blank = Some s
      \<and> style_font (spans ?d s) = computed_font input_empty"
    by blast
  from t rm hm have b: "\<exists>s. ac_sizer m2x_blank = Some s
      \<and> style_font (spans ?d s) = computed_font input_empty"
    by blast
  from a b have "(\<exists>s. cf_sizer char_blank = Some s
          \<and> style_font (spans (doc1\<lparr>spans := (spans doc1)(0 := (spans doc1 0)
                 \<lparr>textContent := ''Name'', style_font := ''16px serif''\<rparr>)\<rparr>) s) = ''16px serif'')
   \<and> (\<exists>s. ac_sizer m2x_blank = Some s
          \<and> style_font (spans (doc1\<lparr>spans := (spans doc1)(0 := (spans doc1 0)
                 \<lparr>textContent := ''Name'', style_font := ''16px serif''\<rparr>)\<rparr>) s) = ''16px serif'')"
    unfolding cf by blast
  with f rc rm show ?thesis
    by blast
qed

text \<open>
  C1, as stated, fails for the char field with a typed value: the resize leaves the
  sizer as it was (its text is still empty, not \<^verbatim>\<open>abc\<close>) and sets the width to
  \<^verbatim>\<open>scrollWidth + 2\<close>, here 29 pixels, which is neither the sizer's width plus 10 nor
  the width of a sizer holding \<^verbatim>\<open>abc\<close> plus 10.
\<close>

theorem char_resize_typed_bypasses_sizer:
  "InlineCharField_resizeInput layout0 (char_typed, doc1)
     = Inr (char_typed\<lparr>cf_input := Some (input_abc\<lparr>style_width := Px 29\<rparr>)\<rparr>, doc1)
   \<and> input_value input_abc = ''abc''
   \<and> textContent (spans doc1 0) \<noteq> ''abc''
   \<and> Px 29 \<noteq> Px (offsetWidth layout0 (spans doc1 0) + 10)
   \<and> Px 29 \<noteq> Px (offsetWidth layout0 ((spans doc1 0)\<lparr>textContent := ''abc''\<rparr>) + 10)"
  by (simp add: char_resize_typed [where inp = input_abc] char_typed_def input_abc_def
      layout0_def doc1_sizer)

text \<open>
  C1, amended. With the input and the sizer present, the many2one autocomplete puts
  into the sizer the first non-empty of the default value, the input's value and its
  placeholder, and sets the width to the sizer's rendered width plus 20; the char field
  with an empty value does so with the placeholder and plus 10; the char field with a
  typed value leaves the sizer alone and sets the width to the input's scroll width,
  read at a width of one pixel, plus 2.
\<close>

theorem resize_sets_width:
  "(cf_input cw = Some cinp \<longrightarrow> input_value cinp \<noteq> [] \<longrightarrow>
      InlineCharField_resizeInput env (cw, cd) =
        Inr (cw\<lparr>cf_input := Some (cinp\<lparr>style_width :=
               Px (scrollWidth env (cinp\<lparr>style_width := Px 1\<rparr>) + 2)\<rparr>)\<rparr>, cd))
   \<and> (cf_input cw = Some cinp \<longrightarrow> input_value cinp = [] \<longrightarrow> cf_sizer cw = Some cs \<longrightarrow>
      (\<exists>cw' cd' inp'.
          InlineCharField_resizeInput env (cw, cd) = Inr (cw', cd')
          \<and> cf_input cw' = Some inp'
          \<and> textContent (spans cd' cs) = placeholder cinp
          \<and> style_width inp' = Px (offsetWidth env (spans cd' cs) + 10)))
   \<and> (ac_container mw = Some c \<longrightarrow> query_input c = Some minp \<longrightarrow> ac_sizer mw = Some ms \<longrightarrow>
      (\<exists>mw' md' c' inp'.
          AutoMany2XAutocomplete_resizeInput env dv (mw, md) = Inr (mw', md')
          \<and> ac_container mw' = Some c' \<and> query_input c' = Some inp'
          \<and> textContent (spans md' ms)
                = or_opt dv (or_str (input_value minp) (placeholder minp))
          \<and> style_width inp' = Px (offsetWidth env (spans md' ms) + 20)))"
proof (intro conjI impI)
  assume "cf_input cw = Some cinp" "input_value cinp \<noteq> []"
  then show "InlineCharField_resizeInput env (cw, cd) =
        Inr (cw\<lparr>cf_input := Some (cinp\<lparr>style_width :=
               Px (scrollWidth env (cinp\<lparr>style_width := Px 1\<rparr>) + 2)\<rparr>)\<rparr>, cd)"
    by (rule char_resize_typed)
next
  assume "cf_input cw = Some cinp" "input_value cinp = []" "cf_sizer cw = Some cs"
  then show "\<exists>cw' cd' inp'.
          InlineCharField_resizeInput env (cw, cd) = Inr (cw', cd')
          \<and> cf_input cw' = Some inp'
          \<and> textContent (spans cd' cs) = placeholder cinp
          \<and> style_width inp' = Px (offsetWidth env (spans cd' cs) + 10)"
    by (simp add: char_resize_blank)
next
  assume "ac_container mw = Some c" "query_input c = Some minp" "ac_sizer mw = Some ms"
  then show "\<exists>mw' md' c' inp'.
          AutoMany2XAutocomplete_resizeInput env dv (mw, md) = Inr (mw', md')
          \<and> ac_container mw' = Some c' \<and> query_input c' = Some inp'
          \<and> textContent (spans md' ms)
                = or_opt dv (or_str (input_value minp) (placeholder minp))
          \<and> style_width inp' = Px (offsetWidth env (spans md' ms) + 20)"
    by (simp add: m2x_resize_present)
qed

theorem resize_sets_width_witness:
  "cf_input char_typed = Some input_abc \<and> input_value input_abc \<noteq> []
   \<and> InlineCharField_resizeInput layout0 (char_typed, doc1)
       = Inr (char_typed\<lparr>cf_input := Some (input_abc\<lparr>style_width := Px 29\<rparr>)\<rparr>, doc1)
   \<and> cf_input char_blank = Some input_empty \<and> input_value input_empty = []
   \<and> cf_sizer char_blank = Some 0
   \<and> (\<exists>cw' cd' inp'.
          InlineCharField_resizeInput layout0 (char_blank, doc1) = Inr (cw', cd')
          \<and> cf_input cw' = Some inp'
          \<and> textContent (spans cd' 0) = ''Name''
          \<and> style_width inp' = Px (offsetWidth layout0 (spans cd' 0) + 10))
   \<and> ac_container m2x_blank = Some \<lparr>query_input = Some input_empty\<rparr>
   \<and> ac_sizer m2x_blank = Some 0
   \<and> (\<exists>mw' md' c' inp'.
          AutoMany2XAutocomplete_resizeInput layout0 (Some ''Alice'') (m2x_blank, doc1)
            = Inr (mw', md')
          \<and> ac_container mw' = Some c' \<and> query_input c' = Some inp'
          \<and> textContent (spans md' 0) = ''Alice''
          \<and> style_width inp' = Px (offsetWidth layout0 (spans md' 0) + 20))"
proof -
  have h1: "cf_input char_typed = Some input_abc" "input_value input_abc \<noteq> []"
    by (simp_all add: char_typed_def input_abc_def)
  have h2: "cf_input char_blank = Some input_empty" "input_value input_empty = []"
      "cf_sizer char_blank = Some 0"
    by (simp_all add: char_blank_def input_empty_def)
  have h3: "ac_container m2x_blank = Some \<lparr>query_input = Some input_empty\<rparr>"
      "query_input \<lparr>query_input = Some input_empty\<rparr> = Some input_empty"
      "ac_sizer m2x_blank = Some 0"
    by (simp_all add: m2x_blank_def)
  have e1: "Px (scrollWidth layout0 (input_abc\<lparr>style_width := Px 1\<rparr>) + 2) = Px 29"
    by (simp add: layout0_def input_abc_def)
  have e2: "placeholder input_empty = ''Name''"
    by (simp add: input_empty_def)
  have e3: "or_opt (Some ''Alice'') (or_str (input_value input_empty) (placeholder input_empty))
              = ''Alice''"
    by (simp add: or_opt_def or_str_def)
  from h1 resize_sets_width [of char_typed input_abc layout0 doc1]
  have a: "InlineCharField_resizeInput layout0 (char_typed, doc1)
       = Inr (char_typed\<lparr>cf_input := Some (input_abc\<lparr>style_width := Px 29\<rparr>)\<rparr>, doc1)"
    unfolding e1 by blast
  from h2 resize_sets_width [of char_blank input_empty layout0 doc1 0]
  have b: "\<exists>cw' cd' inp'.
          InlineCharField_resizeInput layout0 (char_blank, doc1) = Inr (cw', cd')
          \<and> cf_input cw' = Some inp'
          \<and> textContent (spans cd' 0) = ''Name''
          \<and> style_width inp' = Px (offsetWidth layout0 (spans cd' 0) + 10)"
    unfolding e2 by blast
  from h3 resize_sets_width [where mw = m2x_blank and minp = input_empty and env = layout0
      and md = doc1 and ms = 0 and c = "\<lparr>query_input = Some input_empty\<rparr>"
      and dv = "Some ''Alice''"]
  have c: "\<exists>mw' md' c' inp'.
          AutoMany2XAutocomplete_resizeInput layout0 (Some ''Alice'') (m2x_blank, doc1)
            = Inr (mw', md')
          \<and> ac_container mw' = Some c' \<and> query_input c' = Some inp'
          \<and> textContent (spans md' 0) = ''Alice''
          \<and> style_width inp' = Px (offsetWidth layout0 (spans md' 0) + 20)"
    unfolding e3 by blast
  from h1 h2 h3 a b c show ?thesis
    by blast
qed

text \<open>
  C4, as stated, fails for a resize started by a selection: with an empty input value
  and the placeholder \<^verbatim>\<open>Name\<close>, the text measured is the display name passed as
  default value.
\<close>

theorem select_measures_display_name:
  "input_value input_empty = [] \<and> placeholder input_empty = ''Name''
   \<and> (case AutoMany2XAutocomplete_resizeInput layout0 (Some ''Alice'') (m2x_blank, doc1) of
         Inl e \<Rightarrow> None
       | Inr st \<Rightarrow> Some (textContent (spans (snd st) 0))) = Some ''Alice''
   \<and> (case AutoMany2XAutocomplete_onSelect (\<lambda>c. c) layout0 (Some ''Alice'') (m2x_blank, doc1) of
         Inl e \<Rightarrow> None
       | Inr st \<Rightarrow> Some (textContent (spans (snd st) 0))) = Some ''Alice''"
  by (simp add: m2x_resize_present [where s = 0 and inp = input_empty
        and c = "\<lparr>query_input = Some input_empty\<rparr>"]
      AutoMany2XAutocomplete_onSelect_def host_call_def
      m2x_blank_def input_empty_def or_opt_def or_str_def)

text \<open>
  C4, amended. When a resize that reaches the sizer succeeds on an input whose value
  is empty, the text measured is the input's placeholder (the empty string when it has
  none), in the char field always and in the many2one autocomplete when no non-empty
  default value was passed. When the autocomplete's resize is given a non-empty default
  value, that is the text measured, whatever the input holds.
\<close>

theorem empty_value_measures_placeholder:
  "(InlineCharField_resizeInput env (cw, cd) = Inr (cw', cd') \<longrightarrow>
      cf_input cw = Some cinp \<longrightarrow> input_value cinp = [] \<longrightarrow>
      (\<exists>s. cf_sizer cw = Some s \<and> textContent (spans cd' s) = placeholder cinp))
   \<and> (AutoMany2XAutocomplete_resizeInput env dv (mw, md) = Inr (mw', md') \<longrightarrow>
      ac_container mw = Some c \<longrightarrow> query_input c = Some minp \<longrightarrow> input_value minp = [] \<longrightarrow>
      (dv = None \<or> dv = Some []) \<longrightarrow>
      (\<exists>s. ac_sizer mw = Some s \<and> textContent (spans md' s) = placeholder minp))
   \<and> (AutoMany2XAutocomplete_resizeInput env (Some name) (mw, md) = Inr (mw2, md2) \<longrightarrow>
      ac_container mw = Some c \<longrightarrow> query_input c = Some minp \<longrightarrow> name \<noteq> [] \<longrightarrow>
      (\<exists>s. ac_sizer mw = Some s \<and> textContent (spans md2 s) = name))"
proof (intro conjI impI)
  assume r: "InlineCharField_resizeInput env (cw, cd) = Inr (cw', cd')"
    and i: "cf_input cw = Some cinp" and v: "input_value cinp = []"
  show "\<exists>s. cf_sizer cw = Some s \<and> textContent (spans cd' s) = placeholder cinp"
  proof (cases "cf_sizer cw")
    case None
    with r i v show ?thesis by (simp add: char_resize_no_sizer)
  next
    case (Some s)
    with r i v show ?thesis by (auto simp add: char_resize_blank)
  qed
next
  assume r: "AutoMany2XAutocomplete_resizeInput env dv (mw, md) = Inr (mw', md')"
    and k: "ac_container mw = Some c" and i: "query_input c = Some minp"
    and v: "input_value minp = []" and n: "dv = None \<or> dv = Some []"
  from n v have t: "or_opt dv (or_str (input_value minp) (placeholder minp)) = placeholder minp"
    by (auto simp add: or_opt_def or_str_def)
  show "\<exists>s. ac_sizer mw = Some s \<and> textContent (spans md' s) = placeholder minp"
  proof (cases "ac_sizer mw")
    case None
    with r k i show ?thesis by (simp add: m2x_resize_no_sizer)
  next
    case (Some s)
    with r k i t show ?thesis by (auto simp add: m2x_resize_present)
  qed
next
  assume r: "AutoMany2XAutocomplete_resizeInput env (Some name) (mw, md) = Inr (mw2, md2)"
    and k: "ac_container mw = Some c" and i: "query_input c = Some minp"
    and n: "name \<noteq> []"
  from n have t: "or_opt (Some name) (or_str (input_value minp) (placeholder minp)) = name"
    by (simp add: or_opt_def or_str_def)
  show "\<exists>s. ac_sizer mw = Some s \<and> textContent (spans md2 s) = name"
  proof (cases "ac_sizer mw")
    case None
    with r k i show ?thesis by (simp add: m2x_resize_no_sizer)
  next
    case (Some s)
    with r k i t show ?thesis by (auto simp add: m2x_resize_present)
  qed
qed

theorem empty_value_measures_placeholder_witness:
  "InlineCharField_resizeInput layout0 (char_blank, doc1)
       = Inr (char_blank\<lparr>cf_input := Some (input_empty\<lparr>style_width := Px 46\<rparr>)\<rparr>,
              doc1\<lparr>spans := (spans doc1)(0 := (spans doc1 0)
                 \<lparr>textContent := ''Name'', style_font := ''16px serif''\<rparr>)\<rparr>)
   \<and> AutoMany2XAutocomplete_resizeInput layout0 None (m2x_blank, doc1)
       = Inr (m2x_blank\<lparr>ac_container := Some \<lparr>query_input =
                 Some (input_empty\<lparr>style_width := Px 56\<rparr>)\<rparr>\<rparr>,
              doc1\<lparr>spans := (spans doc1)(0 := (spans doc1 0)
                 \<lparr>textContent := ''Name'', style_font := ''16px serif''\<rparr>)\<rparr>)
   \<and> input_value input_empty = []
   \<and> (\<exists>s. cf_sizer char_blank = Some s
          \<and> textContent (spans (doc1\<lparr>spans := (spans doc1)(0 := (spans doc1 0)
                 \<lparr>textContent := ''Name'', style_font := ''16px serif''\<rparr>)\<rparr>) s) = ''Name'')
   \<and> (\<exists>s. ac_sizer m2x_blank = Some s
          \<and> textContent (spans (doc1\<lparr>spans := (spans doc1)(0 := (spans doc1 0)
                 \<lparr>textContent := ''Name'', style_font := ''16px serif''\<rparr>)\<rparr>) s) = ''Name'')
   \<and> AutoMany2XAutocomplete_resizeInput layout0 (Some ''Alice'') (m2x_blank, doc1)
       = Inr (m2x_blank\<lparr>ac_container := Some \<lparr>query_input =
                 Some (input_empty\<lparr>style_width := Px 65\<rparr>)\<rparr>\<rparr>,
              doc1\<lparr>spans := (spans doc1)(0 := (spans doc1 0)
                 \<lparr>textContent := ''Alice'', style_font := ''16px serif''\<rparr>)\<rparr>)
   \<and> ''Alice'' \<noteq> []
   \<and> (\<exists>s. ac_sizer m2x_blank = Some s
          \<and> textContent (spans (doc1\<lparr>spans := (spans doc1)(0 := (spans doc1 0)
                 \<lparr>textContent := ''Alice'', style_font := ''16px serif''\<rparr>)\<rparr>) s) = ''Alice'')"
proof -
  let ?d2 = "doc1\<lparr>spans := (spans doc1)(0 := (spans doc1 0)
                 \<lparr>textContent := ''Alice'', style_font := ''16px serif''\<rparr>)\<rparr>"
  let ?mw2 = "m2x_blank\<lparr>ac_container := Some \<lparr>query_input =
                 Some (input_empty\<lparr>style_width := Px 65\<rparr>)\<rparr>\<rparr>"
  have rs: "AutoMany2XAutocomplete_resizeInput layout0 (Some ''Alice'') (m2x_blank, doc1)
      = Inr (?mw2, ?d2)"
    by (simp add: m2x_resize_present [where s = 0 and inp = input_empty
          and c = "\<lparr>query_input = Some input_empty\<rparr>"]
        m2x_blank_def input_empty_def layout0_def doc1_sizer or_opt_def or_str_def)
  have al: "''Alice'' \<noteq> []"
    by simp
  let ?d = "doc1\<lparr>spans := (spans doc1)(0 := (spans doc1 0)
                 \<lparr>textContent := ''Name'', style_font := ''16px serif''\<rparr>)\<rparr>"
  let ?cw = "char_blank\<lparr>cf_input := Some (input_empty\<lparr>style_width := Px 46\<rparr>)\<rparr>"
  let ?mw = "m2x_blank\<lparr>ac_container := Some \<lparr>query_input =
                 Some (input_empty\<lparr>style_width := Px 56\<rparr>)\<rparr>\<rparr>"
  have rc: "InlineCharField_resizeInput layout0 (char_blank, doc1) = Inr (?cw, ?d)"
    by (simp add: char_resize_blank [where s = 0 and inp = input_empty]
        char_blank_def input_empty_def layout0_def doc1_sizer)
  have rm: "AutoMany2XAutocomplete_resizeInput layout0 None (m2x_blank, doc1) = Inr (?mw, ?d)"
    by (simp add: m2x_resize_present [where s = 0 and inp = input_empty
          and c = "\<lparr>query_input = Some input_empty\<rparr>"]
        m2x_blank_def input_empty_def layout0_def doc1_sizer or_opt_def or_str_def)
  have hc: "cf_input char_blank = Some input_empty" "input_value input_empty = []"
    by (simp_all add: char_blank_def input_empty_def)
  have hm: "ac_container m2x_blank = Some \<lparr>query_input = Some input_empty\<rparr>"
      "query_input \<lparr>query_input = Some input_empty\<rparr> = Some input_empty"
    by (simp_all add: m2x_blank_def)
  have ph: "placeholder input_empty = ''Name''"
    by (simp add: input_empty_def)
  note t = empty_value_measures_placeholder [of layout0 char_blank doc1 ?cw ?d input_empty
      None m2x_blank doc1 ?mw ?d "\<lparr>query_input = Some input_empty\<rparr>" input_empty]
  from t rc hc have a: "\<exists>s. cf_sizer char_blank = Some s
      \<and> textContent (spans ?d s) = placeholder input_empty"
    by blast
  from t rm hm hc have b: "\<exists>s. ac_sizer m2x_blank = Some s
      \<and> textContent (spans ?d s) = placeholder input_empty"
    by blast
  from a b have ab: "(\<exists>s. cf_sizer char_blank = Some s \<and> textContent (spans ?d s) = ''Name'')
     \<and> (\<exists>s. ac_sizer m2x_blank = Some s \<and> textContent (spans ?d s) = ''Name'')"
    unfolding ph by blast
  note t2 = empty_value_measures_placeholder [where env = layout0 and mw = m2x_blank
      and md = doc1 and name = "''Alice''" and ?mw2.0 = ?mw2 and ?md2.0 = ?d2
      and c = "\<lparr>query_input = Some input_empty\<rparr>" and minp = input_empty]
  from t2 rs hm al
  have c: "\<exists>s. ac_sizer m2x_blank = Some s \<and> textContent (spans ?d2 s) = ''Alice''"
    by blast
  from rc rm hc(2) ab rs al c show ?thesis
    by blast
qed

section \<open>Events\<close>

lemma char_resize_stable:
  "InlineCharField_resizeInput env st = Inr st' \<Longrightarrow>
   InlineCharField_resizeInput env st' = Inr st'"
  by (cases st)
    (auto simp add: InlineCharField_resizeInput_def Let_def split: option.splits if_splits)

lemma char_resize_frame:
  "InlineCharField_resizeInput env st = Inr st' \<Longrightarrow>
   cf_sizer (fst st') = cf_sizer (fst st) \<and> body_children (snd st') = body_children (snd st)"
  by (cases st)
    (auto simp add: InlineCharField_resizeInput_def Let_def split: option.splits if_splits)

lemma m2x_resize_stable:
  "AutoMany2XAutocomplete_resizeInput env dv st = Inr st' \<Longrightarrow>
   AutoMany2XAutocomplete_resizeInput env dv st' = Inr st'"
  by (cases st)
    (auto simp add: AutoMany2XAutocomplete_resizeInput_def Let_def split: option.splits)

lemma m2x_resize_frame:
  "AutoMany2XAutocomplete_resizeInput env dv st = Inr st' \<Longrightarrow>
   ac_sizer (fst st') = ac_sizer (fst st) \<and> body_children (snd st') = body_children (snd st)"
  by (cases st)
    (auto simp add: AutoMany2XAutocomplete_resizeInput_def Let_def split: option.splits)

lemma char_resize_with_sizer:
  "cf_sizer (fst st) \<noteq> None \<Longrightarrow> \<exists>st'. InlineCharField_resizeInput env st = Inr st'"
  by (cases st)
    (auto simp add: InlineCharField_resizeInput_def Let_def split: option.splits)

lemma m2x_resize_with_sizer:
  "ac_sizer (fst st) \<noteq> None \<Longrightarrow> ac_container (fst st) \<noteq> None \<Longrightarrow>
   \<exists>st'. AutoMany2XAutocomplete_resizeInput env dv st = Inr st'"
  by (cases st)
    (auto simp add: AutoMany2XAutocomplete_resizeInput_def Let_def split: option.splits)

lemma created_in_body:
  "cf_sizer (fst st) = None \<Longrightarrow>
   fresh (snd st) \<in> set (body_children (snd (InlineCharField_createSizer st)))"
  by (simp add: char_create_body)

lemma m2x_created_in_body:
  "ac_sizer (fst st) = None \<Longrightarrow>
   fresh (snd st) \<in> set (body_children (snd (AutoMany2XAutocomplete_createSizer st)))"
  by (simp add: m2x_create_body)

lemma char_resize_effect:
  assumes "cf_sizer (fst st) = Some s" and "cf_input (fst st) = Some inp"
  shows "\<exists>st'. InlineCharField_resizeInput env st = Inr st'
      \<and> cf_sizer (fst st') = Some s
      \<and> body_children (snd st') = body_children (snd st)
      \<and> cf_input (fst st') = Some (inp\<lparr>style_width :=
            (if input_value inp \<noteq> []
             then Px (scrollWidth env (inp\<lparr>style_width := Px 1\<rparr>) + 2)
             else Px (offsetWidth env (spans (snd st') s) + 10))\<rparr>)
      \<and> (input_value inp = [] \<longrightarrow>
            textContent (spans (snd st') s) = placeholder inp
            \<and> style_font (spans (snd st') s) = computed_font inp)"
proof (cases st)
  case (Pair w d)
  with assms have h: "cf_sizer w = Some s" "cf_input w = Some inp"
    by simp_all
  show ?thesis
  proof (cases "input_value inp = []")
    case True
    with h show ?thesis
      unfolding Pair by (simp add: char_resize_blank)
  next
    case False
    with h show ?thesis
      unfolding Pair by (simp add: char_resize_typed)
  qed
qed

lemma m2x_resize_effect:
  assumes "ac_sizer (fst st) = Some s" and "ac_container (fst st) = Some c"
    and "query_input c = Some inp"
  shows "\<exists>st'. AutoMany2XAutocomplete_resizeInput env dv st = Inr st'
      \<and> ac_sizer (fst st') = Some s
      \<and> body_children (snd st') = body_children (snd st)
      \<and> ac_container (fst st') = Some (c\<lparr>query_input := Some (inp\<lparr>style_width :=
            Px (offsetWidth env (spans (snd st') s) + 20)\<rparr>)\<rparr>)
      \<and> textContent (spans (snd st') s)
            = or_opt dv (or_str (input_value inp) (placeholder inp))
      \<and> style_font (spans (snd st') s) = computed_font inp"
proof (cases st)
  case (Pair w d)
  with assms have "ac_sizer w = Some s" "ac_container w = Some c" "query_input c = Some inp"
    by simp_all
  then show ?thesis
    unfolding Pair by (simp add: m2x_resize_present)
qed

lemma host_call_fields:
  "ac_sizer (fst (host_call host st)) = ac_sizer (fst st)"
  "ac_container (fst (host_call host st)) = host (ac_container (fst st))"
  "snd (host_call host st) = snd st"
  by (cases st; simp add: host_call_def)+

lemma m2x_resize_keeps_container:
  "AutoMany2XAutocomplete_resizeInput env dv st = Inr st' \<Longrightarrow>
   ac_container (fst st') \<noteq> None"
  by (cases st)
    (auto simp add: AutoMany2XAutocomplete_resizeInput_def Let_def split: option.splits)

lemma char_resize_absent_state:
  "cf_input (fst st) = None \<Longrightarrow> InlineCharField_resizeInput env st = Inr st"
  by (cases st) (simp add: char_resize_absent)

lemma m2x_resize_absent_state:
  "ac_container (fst st) = Some c \<Longrightarrow> query_input c = None \<Longrightarrow>
   AutoMany2XAutocomplete_resizeInput env dv st = Inr st"
  by (cases st) (simp add: m2x_resize_absent)

text \<open>
  C3. Every mount, content change and selection runs the resize routine: each handler
  is the resize routine applied after the sizer's creation (mount) or after the
  parent's handler (change, selection, with the option's display name as default
  value). In effect: the event completes and leaves the very input it found, with
  only its width replaced by the fitted one (measured on the instance's sizer, which
  then holds the measured text in the input's font); mounting leaves the instance
  with a sizer, a new child of the body when it had none; and the state an event
  leaves is one that the resize routine, run again, returns unchanged. The char
  field's mount always completes; the other events complete when the sizer exists and
  the host leaves the container in place.
\<close>

theorem resize_on_every_event:
  "InlineCharField_onMounted env cst
       = InlineCharField_resizeInput env (InlineCharField_createSizer cst)
   \<and> InlineCharField_onInputType env cst = InlineCharField_resizeInput env cst
   \<and> AutoMany2XAutocomplete_onMounted env mst
       = AutoMany2XAutocomplete_resizeInput env None (AutoMany2XAutocomplete_createSizer mst)
   \<and> AutoMany2XAutocomplete_onChange host env mst
       = AutoMany2XAutocomplete_resizeInput env None (host_call host mst)
   \<and> AutoMany2XAutocomplete_onSelect host env displayName mst
       = AutoMany2XAutocomplete_resizeInput env displayName (host_call host mst)
   \<and> (\<exists>cst' s. InlineCharField_onMounted env cst = Inr cst'
        \<and> cf_sizer (fst cst') = Some s
        \<and> (cf_sizer (fst cst) = None \<longrightarrow> s \<in> set (body_children (snd cst')))
        \<and> InlineCharField_resizeInput env cst' = Inr cst')
   \<and> (cf_sizer (fst cst) \<noteq> None \<longrightarrow>
        (\<exists>cst'. InlineCharField_onInputType env cst = Inr cst'
            \<and> InlineCharField_resizeInput env cst' = Inr cst'))
   \<and> (ac_container (fst mst) \<noteq> None \<longrightarrow>
        (\<exists>mst' s. AutoMany2XAutocomplete_onMounted env mst = Inr mst'
            \<and> ac_sizer (fst mst') = Some s
            \<and> (ac_sizer (fst mst) = None \<longrightarrow> s \<in> set (body_children (snd mst')))
            \<and> AutoMany2XAutocomplete_resizeInput env None mst' = Inr mst'))
   \<and> (ac_sizer (fst mst) \<noteq> None \<longrightarrow> host (ac_container (fst mst)) \<noteq> None \<longrightarrow>
        (\<exists>mst'. AutoMany2XAutocomplete_onChange host env mst = Inr mst'
            \<and> AutoMany2XAutocomplete_resizeInput env None mst' = Inr mst'))
   \<and> (ac_sizer (fst mst) \<noteq> None \<longrightarrow> host (ac_container (fst mst)) \<noteq> None \<longrightarrow>
        (\<exists>mst'. AutoMany2XAutocomplete_onSelect host env displayName mst = Inr mst'
            \<and> AutoMany2XAutocomplete_resizeInput env displayName mst' = Inr mst'))
   \<and> (cf_input (fst cst) = None \<longrightarrow>
        InlineCharField_onMounted env cst = Inr (InlineCharField_createSizer cst)
        \<and> InlineCharField_onInputType env cst = Inr cst)
   \<and> (cf_input (fst cst) = Some cinp \<longrightarrow>
        (\<exists>cst' s. InlineCharField_onMounted env cst = Inr cst'
            \<and> cf_sizer (fst cst') = Some s
            \<and> cf_input (fst cst') = Some (cinp\<lparr>style_width :=
                  (if input_value cinp \<noteq> []
                   then Px (scrollWidth env (cinp\<lparr>style_width := Px 1\<rparr>) + 2)
                   else Px (offsetWidth env (spans (snd cst') s) + 10))\<rparr>)
            \<and> (input_value cinp = [] \<longrightarrow>
                  textContent (spans (snd cst') s) = placeholder cinp
                  \<and> style_font (spans (snd cst') s) = computed_font cinp)))
   \<and> (cf_input (fst cst) = Some cinp \<longrightarrow> cf_sizer (fst cst) = Some cs \<longrightarrow>
        (\<exists>cst'. InlineCharField_onInputType env cst = Inr cst'
            \<and> cf_sizer (fst cst') = Some cs
            \<and> body_children (snd cst') = body_children (snd cst)
            \<and> cf_input (fst cst') = Some (cinp\<lparr>style_width :=
                  (if input_value cinp \<noteq> []
                   then Px (scrollWidth env (cinp\<lparr>style_width := Px 1\<rparr>) + 2)
                   else Px (offsetWidth env (spans (snd cst') cs) + 10))\<rparr>)
            \<and> (input_value cinp = [] \<longrightarrow>
                  textContent (spans (snd cst') cs) = placeholder cinp
                  \<and> style_font (spans (snd cst') cs) = computed_font cinp)))
   \<and> (ac_container (fst mst) = Some mc \<longrightarrow> query_input mc = Some minp \<longrightarrow>
        (\<exists>mst' s. AutoMany2XAutocomplete_onMounted env mst = Inr mst'
            \<and> ac_sizer (fst mst') = Some s
            \<and> ac_container (fst mst') = Some (mc\<lparr>query_input := Some (minp\<lparr>style_width :=
                  Px (offsetWidth env (spans (snd mst') s) + 20)\<rparr>)\<rparr>)
            \<and> textContent (spans (snd mst') s)
                  = or_str (input_value minp) (placeholder minp)
            \<and> style_font (spans (snd mst') s) = computed_font minp))
   \<and> (ac_sizer (fst mst) = Some ms \<longrightarrow> host (ac_container (fst mst)) = Some hc \<longrightarrow>
        query_input hc = Some hinp \<longrightarrow>
        (\<exists>mst'. AutoMany2XAutocomplete_onChange host env mst = Inr mst'
            \<and> ac_sizer (fst mst') = Some ms
            \<and> body_children (snd mst') = body_children (snd mst)
            \<and> ac_container (fst mst') = Some (hc\<lparr>query_input := Some (hinp\<lparr>style_width :=
                  Px (offsetWidth env (spans (snd mst') ms) + 20)\<rparr>)\<rparr>)
            \<and> textContent (spans (snd mst') ms)
                  = or_str (input_value hinp) (placeholder hinp)
            \<and> style_font (spans (snd mst') ms) = computed_font hinp)
        \<and> (\<exists>mst'. AutoMany2XAutocomplete_onSelect host env displayName mst = Inr mst'
            \<and> ac_sizer (fst mst') = Some ms
            \<and> body_children (snd mst') = body_children (snd mst)
            \<and> ac_container (fst mst') = Some (hc\<lparr>query_input := Some (hinp\<lparr>style_width :=
                  Px (offsetWidth env (spans (snd mst') ms) + 20)\<rparr>)\<rparr>)
            \<and> textContent (spans (snd mst') ms)
                  = or_opt displayName (or_str (input_value hinp) (placeholder hinp))
            \<and> style_font (spans (snd mst') ms) = computed_font hinp))
   \<and> (host (ac_container (fst mst)) = Some hc \<longrightarrow> query_input hc = None \<longrightarrow>
        AutoMany2XAutocomplete_onChange host env mst = Inr (host_call host mst)
        \<and> AutoMany2XAutocomplete_onSelect host env displayName mst = Inr (host_call host mst))"
proof -
  have e1: "InlineCharField_onMounted env cst
       = InlineCharField_resizeInput env (InlineCharField_createSizer cst)"
    by (simp add: InlineCharField_onMounted_def)
  have e2: "InlineCharField_onInputType env cst = InlineCharField_resizeInput env cst"
    by (simp add: InlineCharField_onInputType_def)
  have e3: "AutoMany2XAutocomplete_onMounted env mst
       = AutoMany2XAutocomplete_resizeInput env None (AutoMany2XAutocomplete_createSizer mst)"
    by (simp add: AutoMany2XAutocomplete_onMounted_def)
  have e4: "AutoMany2XAutocomplete_onChange host env mst
       = AutoMany2XAutocomplete_resizeInput env None (host_call host mst)"
    by (simp add: AutoMany2XAutocomplete_onChange_def)
  have e5: "AutoMany2XAutocomplete_onSelect host env displayName mst
       = AutoMany2XAutocomplete_resizeInput env displayName (host_call host mst)"
    by (simp add: AutoMany2XAutocomplete_onSelect_def)
  have a: "\<exists>cst' s. InlineCharField_onMounted env cst = Inr cst'
        \<and> cf_sizer (fst cst') = Some s
        \<and> (cf_sizer (fst cst) = None \<longrightarrow> s \<in> set (body_children (snd cst')))
        \<and> InlineCharField_resizeInput env cst' = Inr cst'"
  proof -
    let ?st1 = "InlineCharField_createSizer cst"
    have s1: "cf_sizer (fst ?st1) \<noteq> None"
      by (simp add: char_create_sizer split: option.split)
    then obtain cst' where r: "InlineCharField_resizeInput env ?st1 = Inr cst'"
      using char_resize_with_sizer by blast
    from char_resize_frame [OF r]
    have fr: "cf_sizer (fst cst') = cf_sizer (fst ?st1)"
        "body_children (snd cst') = body_children (snd ?st1)"
      by simp_all
    from s1 fr obtain s where s: "cf_sizer (fst cst') = Some s"
      by auto
    have "cf_sizer (fst cst) = None \<longrightarrow> s \<in> set (body_children (snd cst'))"
    proof
      assume n: "cf_sizer (fst cst) = None"
      with s fr have "s = fresh (snd cst)"
        by (simp add: char_create_sizer)
      with created_in_body [OF n] fr show "s \<in> set (body_children (snd cst'))"
        by simp
    qed
    with r s char_resize_stable [OF r] show ?thesis
      unfolding e1 by simp
  qed
  have c: "cf_sizer (fst cst) \<noteq> None \<longrightarrow>
        (\<exists>cst'. InlineCharField_onInputType env cst = Inr cst'
            \<and> InlineCharField_resizeInput env cst' = Inr cst')"
    unfolding e2 using char_resize_with_sizer char_resize_stable by blast
  have d: "ac_container (fst mst) \<noteq> None \<longrightarrow>
        (\<exists>mst' s. AutoMany2XAutocomplete_onMounted env mst = Inr mst'
            \<and> ac_sizer (fst mst') = Some s
            \<and> (ac_sizer (fst mst) = None \<longrightarrow> s \<in> set (body_children (snd mst')))
            \<and> AutoMany2XAutocomplete_resizeInput env None mst' = Inr mst')"
  proof
    assume k: "ac_container (fst mst) \<noteq> None"
    let ?st1 = "AutoMany2XAutocomplete_createSizer mst"
    have s1: "ac_sizer (fst ?st1) \<noteq> None"
      by (simp add: m2x_create_sizer split: option.split)
    from k have k1: "ac_container (fst ?st1) \<noteq> None"
      by (simp add: m2x_create_container)
    from s1 k1 obtain mst' where r: "AutoMany2XAutocomplete_resizeInput env None ?st1 = Inr mst'"
      using m2x_resize_with_sizer by blast
    from m2x_resize_frame [OF r]
    have fr: "ac_sizer (fst mst') = ac_sizer (fst ?st1)"
        "body_children (snd mst') = body_children (snd ?st1)"
      by simp_all
    from s1 fr obtain s where s: "ac_sizer (fst mst') = Some s"
      by auto
    have "ac_sizer (fst mst) = None \<longrightarrow> s \<in> set (body_children (snd mst'))"
    proof
      assume n: "ac_sizer (fst mst) = None"
      with s fr have "s = fresh (snd mst)"
        by (simp add: m2x_create_sizer)
      with m2x_created_in_body [OF n] fr show "s \<in> set (body_children (snd mst'))"
        by simp
    qed
    with r s m2x_resize_stable [OF r]
    show "\<exists>mst' s. AutoMany2XAutocomplete_onMounted env mst = Inr mst'
            \<and> ac_sizer (fst mst') = Some s
            \<and> (ac_sizer (fst mst) = None \<longrightarrow> s \<in> set (body_children (snd mst')))
            \<and> AutoMany2XAutocomplete_resizeInput env None mst' = Inr mst'"
      unfolding e3 by simp
  qed
  have e: "ac_sizer (fst mst) \<noteq> None \<longrightarrow> host (ac_container (fst mst)) \<noteq> None \<longrightarrow>
        (\<exists>mst'. AutoMany2XAutocomplete_resizeInput env dv (host_call host mst) = Inr mst'
            \<and> AutoMany2XAutocomplete_resizeInput env dv mst' = Inr mst')" for dv
  proof (intro impI)
    assume "ac_sizer (fst mst) \<noteq> None" "host (ac_container (fst mst)) \<noteq> None"
    then have "ac_sizer (fst (host_call host mst)) \<noteq> None"
        "ac_container (fst (host_call host mst)) \<noteq> None"
      by (simp_all add: host_call_fields)
    then obtain mst' where
      r: "AutoMany2XAutocomplete_resizeInput env dv (host_call host mst) = Inr mst'"
      using m2x_resize_with_sizer by blast
    with m2x_resize_stable [OF r]
    show "\<exists>mst'. AutoMany2XAutocomplete_resizeInput env dv (host_call host mst) = Inr mst'
            \<and> AutoMany2XAutocomplete_resizeInput env dv mst' = Inr mst'"
      by blast
  qed
  have f: "cf_input (fst cst) = None \<longrightarrow>
        InlineCharField_onMounted env cst = Inr (InlineCharField_createSizer cst)
        \<and> InlineCharField_onInputType env cst = Inr cst"
    by (simp add: e1 e2 char_resize_absent_state char_create_input)
  have g: "cf_input (fst cst) = Some cinp \<longrightarrow>
        (\<exists>cst' s. InlineCharField_onMounted env cst = Inr cst'
            \<and> cf_sizer (fst cst') = Some s
            \<and> cf_input (fst cst') = Some (cinp\<lparr>style_width :=
                  (if input_value cinp \<noteq> []
                   then Px (scrollWidth env (cinp\<lparr>style_width := Px 1\<rparr>) + 2)
                   else Px (offsetWidth env (spans (snd cst') s) + 10))\<rparr>)
            \<and> (input_value cinp = [] \<longrightarrow>
                  textContent (spans (snd cst') s) = placeholder cinp
                  \<and> style_font (spans (snd cst') s) = computed_font cinp))"
  proof
    assume i: "cf_input (fst cst) = Some cinp"
    let ?st1 = "InlineCharField_createSizer cst"
    obtain s where s: "cf_sizer (fst ?st1) = Some s"
      by (cases "cf_sizer (fst cst)") (simp_all add: char_create_sizer)
    from i have i1: "cf_input (fst ?st1) = Some cinp"
      by (simp add: char_create_input)
    from char_resize_effect [OF s i1, of env]
    show "\<exists>cst' s. InlineCharField_onMounted env cst = Inr cst'
            \<and> cf_sizer (fst cst') = Some s
            \<and> cf_input (fst cst') = Some (cinp\<lparr>style_width :=
                  (if input_value cinp \<noteq> []
                   then Px (scrollWidth env (cinp\<lparr>style_width := Px 1\<rparr>) + 2)
                   else Px (offsetWidth env (spans (snd cst') s) + 10))\<rparr>)
            \<and> (input_value cinp = [] \<longrightarrow>
                  textContent (spans (snd cst') s) = placeholder cinp
                  \<and> style_font (spans (snd cst') s) = computed_font cinp)"
      unfolding e1 by blast
  qed
  have h: "cf_input (fst cst) = Some cinp \<longrightarrow> cf_sizer (fst cst) = Some cs \<longrightarrow>
        (\<exists>cst'. InlineCharField_onInputType env cst = Inr cst'
            \<and> cf_sizer (fst cst') = Some cs
            \<and> body_children (snd cst') = body_children (snd cst)
            \<and> cf_input (fst cst') = Some (cinp\<lparr>style_width :=
                  (if input_value cinp \<noteq> []
                   then Px (scrollWidth env (cinp\<lparr>style_width := Px 1\<rparr>) + 2)
                   else Px (offsetWidth env (spans (snd cst') cs) + 10))\<rparr>)
            \<and> (input_value cinp = [] \<longrightarrow>
                  textContent (spans (snd cst') cs) = placeholder cinp
                  \<and> style_font (spans (snd cst') cs) = computed_font cinp))"
    unfolding e2 using char_resize_effect [of cst cs cinp env] by blast
  have j: "ac_container (fst mst) = Some mc \<longrightarrow> query_input mc = Some minp \<longrightarrow>
        (\<exists>mst' s. AutoMany2XAutocomplete_onMounted env mst = Inr mst'
            \<and> ac_sizer (fst mst') = Some s
            \<and> ac_container (fst mst') = Some (mc\<lparr>query_input := Some (minp\<lparr>style_width :=
                  Px (offsetWidth env (spans (snd mst') s) + 20)\<rparr>)\<rparr>)
            \<and> textContent (spans (snd mst') s)
                  = or_str (input_value minp) (placeholder minp)
            \<and> style_font (spans (snd mst') s) = computed_font minp)"
  proof (intro impI)
    assume k: "ac_container (fst mst) = Some mc" and q: "query_input mc = Some minp"
    let ?st1 = "AutoMany2XAutocomplete_createSizer mst"
    obtain s where s: "ac_sizer (fst ?st1) = Some s"
      by (cases "ac_sizer (fst mst)") (simp_all add: m2x_create_sizer)
    from k have k1: "ac_container (fst ?st1) = Some mc"
      by (simp add: m2x_create_container)
    from m2x_resize_effect [OF s k1 q, of env None]
    show "\<exists>mst' s. AutoMany2XAutocomplete_onMounted env mst = Inr mst'
            \<and> ac_sizer (fst mst') = Some s
            \<and> ac_container (fst mst') = Some (mc\<lparr>query_input := Some (minp\<lparr>style_width :=
                  Px (offsetWidth env (spans (snd mst') s) + 20)\<rparr>)\<rparr>)
            \<and> textContent (spans (snd mst') s)
                  = or_str (input_value minp) (placeholder minp)
            \<and> style_font (spans (snd mst') s) = computed_font minp"
      unfolding e3 by (auto simp add: or_opt_def)
  qed
  have k: "ac_sizer (fst mst) = Some ms \<longrightarrow> host (ac_container (fst mst)) = Some hc \<longrightarrow>
        query_input hc = Some hinp \<longrightarrow>
        (\<exists>mst'. AutoMany2XAutocomplete_resizeInput env dv (host_call host mst) = Inr mst'
            \<and> ac_sizer (fst mst') = Some ms
            \<and> body_children (snd mst') = body_children (snd mst)
            \<and> ac_container (fst mst') = Some (hc\<lparr>query_input := Some (hinp\<lparr>style_width :=
                  Px (offsetWidth env (spans (snd mst') ms) + 20)\<rparr>)\<rparr>)
            \<and> textContent (spans (snd mst') ms)
                  = or_opt dv (or_str (input_value hinp) (placeholder hinp))
            \<and> style_font (spans (snd mst') ms) = computed_font hinp)" for dv
  proof (intro impI)
    assume "ac_sizer (fst mst) = Some ms" "host (ac_container (fst mst)) = Some hc"
      and q: "query_input hc = Some hinp"
    then have s: "ac_sizer (fst (host_call host mst)) = Some ms"
      and c: "ac_container (fst (host_call host mst)) = Some hc"
      by (simp_all add: host_call_fields)
    from m2x_resize_effect [OF s c q, of env dv]
    show "\<exists>mst'. AutoMany2XAutocomplete_resizeInput env dv (host_call host mst) = Inr mst'
            \<and> ac_sizer (fst mst') = Some ms
            \<and> body_children (snd mst') = body_children (snd mst)
            \<and> ac_container (fst mst') = Some (hc\<lparr>query_input := Some (hinp\<lparr>style_width :=
                  Px (offsetWidth env (spans (snd mst') ms) + 20)\<rparr>)\<rparr>)
            \<and> textContent (spans (snd mst') ms)
                  = or_opt dv (or_str (input_value hinp) (placeholder hinp))
            \<and> style_font (spans (snd mst') ms) = computed_font hinp"
      by (simp add: host_call_fields)
  qed
  have k0: "or_opt None x = x" for x
    by (simp add: or_opt_def)
  have l: "host (ac_container (fst mst)) = Some hc \<longrightarrow> query_input hc = None \<longrightarrow>
        AutoMany2XAutocomplete_resizeInput env dv (host_call host mst)
          = Inr (host_call host mst)" for dv
    using m2x_resize_absent_state [of "host_call host mst" hc env dv]
    by (simp add: host_call_fields)
  have ch: "ac_sizer (fst mst) \<noteq> None \<longrightarrow> host (ac_container (fst mst)) \<noteq> None \<longrightarrow>
        (\<exists>mst'. AutoMany2XAutocomplete_onChange host env mst = Inr mst'
            \<and> AutoMany2XAutocomplete_resizeInput env None mst' = Inr mst')"
    unfolding e4 by (rule e)
  have se: "ac_sizer (fst mst) \<noteq> None \<longrightarrow> host (ac_container (fst mst)) \<noteq> None \<longrightarrow>
        (\<exists>mst'. AutoMany2XAutocomplete_onSelect host env displayName mst = Inr mst'
            \<and> AutoMany2XAutocomplete_resizeInput env displayName mst' = Inr mst')"
    unfolding e5 by (rule e)
  have kk: "ac_sizer (fst mst) = Some ms \<longrightarrow> host (ac_container (fst mst)) = Some hc \<longrightarrow>
        query_input hc = Some hinp \<longrightarrow>
        (\<exists>mst'. AutoMany2XAutocomplete_onChange host env mst = Inr mst'
            \<and> ac_sizer (fst mst') = Some ms
            \<and> body_children (snd mst') = body_children (snd mst)
            \<and> ac_container (fst mst') = Some (hc\<lparr>query_input := Some (hinp\<lparr>style_width :=
                  Px (offsetWidth env (spans (snd mst') ms) + 20)\<rparr>)\<rparr>)
            \<and> textContent (spans (snd mst') ms)
                  = or_str (input_value hinp) (placeholder hinp)
            \<and> style_font (spans (snd mst') ms) = computed_font hinp)
        \<and> (\<exists>mst'. AutoMany2XAutocomplete_onSelect host env displayName mst = Inr mst'
            \<and> ac_sizer (fst mst') = Some ms
            \<and> body_children (snd mst') = body_children (snd mst)
            \<and> ac_container (fst mst') = Some (hc\<lparr>query_input := Some (hinp\<lparr>style_width :=
                  Px (offsetWidth env (spans (snd mst') ms) + 20)\<rparr>)\<rparr>)
            \<and> textContent (spans (snd mst') ms)
                  = or_opt displayName (or_str (input_value hinp) (placeholder hinp))
            \<and> style_font (spans (snd mst') ms) = computed_font hinp)"
  proof (intro impI conjI)
    assume p: "ac_sizer (fst mst) = Some ms" "host (ac_container (fst mst)) = Some hc"
      "query_input hc = Some hinp"
    from k [of None] p
    show "\<exists>mst'. AutoMany2XAutocomplete_onChange host env mst = Inr mst'
            \<and> ac_sizer (fst mst') = Some ms
            \<and> body_children (snd mst') = body_children (snd mst)
            \<and> ac_container (fst mst') = Some (hc\<lparr>query_input := Some (hinp\<lparr>style_width :=
                  Px (offsetWidth env (spans (snd mst') ms) + 20)\<rparr>)\<rparr>)
            \<and> textContent (spans (snd mst') ms)
                  = or_str (input_value hinp) (placeholder hinp)
            \<and> style_font (spans (snd mst') ms) = computed_font hinp"
      unfolding e4 k0 by simp
    from k [of displayName] p
    show "\<exists>mst'. AutoMany2XAutocomplete_onSelect host env displayName mst = Inr mst'
            \<and> ac_sizer (fst mst') = Some ms
            \<and> body_children (snd mst') = body_children (snd mst)
            \<and> ac_container (fst mst') = Some (hc\<lparr>query_input := Some (hinp\<lparr>style_width :=
                  Px (offsetWidth env (spans (snd mst') ms) + 20)\<rparr>)\<rparr>)
            \<and> textContent (spans (snd mst') ms)
                  = or_opt displayName (or_str (input_value hinp) (placeholder hinp))
            \<and> style_font (spans (snd mst') ms) = computed_font hinp"
      unfolding e5 by simp
  qed
  have ll: "host (ac_container (fst mst)) = Some hc \<longrightarrow> query_input hc = None \<longrightarrow>
        AutoMany2XAutocomplete_onChange host env mst = Inr (host_call host mst)
        \<and> AutoMany2XAutocomplete_onSelect host env displayName mst = Inr (host_call host mst)"
    unfolding e4 e5 using l [of None] l [of displayName] by simp
  show ?thesis
    apply (intro conjI)
                   apply (rule e1)
                  apply (rule e2)
                 apply (rule e3)
                apply (rule e4)
               apply (rule e5)
              apply (rule a)
             apply (rule c)
            apply (rule d)
           apply (rule ch)
          apply (rule se)
         apply (rule f)
        apply (rule g)
       apply (rule h)
      apply (rule j)
     apply (rule kk)
    apply (rule ll)
    done
qed

text \<open>
  Three instances. A char field and an autocomplete without sizer are mounted into the
  empty document. A char field holding \<^verbatim>\<open>abc\<close> gets an input event, and an
  autocomplete whose parent handler leaves \<^verbatim>\<open>ab\<close> in the input gets a change and
  a selection of \<^verbatim>\<open>Alice\<close>. A char field without input element is mounted, and an
  autocomplete whose parent handler leaves no input element gets a change.
\<close>

theorem resize_on_every_event_witness:
  "cf_sizer (fst (char_no_sizer, doc0)) = None
   \<and> cf_input (fst (char_no_sizer, doc0)) = Some input_empty
   \<and> (\<exists>cst' s. InlineCharField_onMounted layout0 (char_no_sizer, doc0) = Inr cst'
        \<and> cf_sizer (fst cst') = Some s \<and> s \<in> set (body_children (snd cst'))
        \<and> InlineCharField_resizeInput layout0 cst' = Inr cst')
   \<and> (\<exists>cst' s. InlineCharField_onMounted layout0 (char_no_sizer, doc0) = Inr cst'
        \<and> cf_sizer (fst cst') = Some s
        \<and> cf_input (fst cst') = Some (input_empty\<lparr>style_width :=
              Px (offsetWidth layout0 (spans (snd cst') s) + 10)\<rparr>)
        \<and> textContent (spans (snd cst') s) = ''Name''
        \<and> style_font (spans (snd cst') s) = ''16px serif'')
   \<and> ac_sizer (fst (m2x_new, doc0)) = None
   \<and> ac_container (fst (m2x_new, doc0)) = Some \<lparr>query_input = Some input_abc\<rparr>
   \<and> (\<exists>mst' s. AutoMany2XAutocomplete_onMounted layout0 (m2x_new, doc0) = Inr mst'
        \<and> ac_sizer (fst mst') = Some s \<and> s \<in> set (body_children (snd mst'))
        \<and> AutoMany2XAutocomplete_resizeInput layout0 None mst' = Inr mst')
   \<and> (\<exists>mst' s. AutoMany2XAutocomplete_onMounted layout0 (m2x_new, doc0) = Inr mst'
        \<and> ac_sizer (fst mst') = Some s
        \<and> ac_container (fst mst') = Some \<lparr>query_input = Some (input_abc\<lparr>style_width :=
              Px (offsetWidth layout0 (spans (snd mst') s) + 20)\<rparr>)\<rparr>
        \<and> textContent (spans (snd mst') s) = ''abc''
        \<and> style_font (spans (snd mst') s) = ''12px sans'')
   \<and> cf_sizer (fst (char_typed, doc1)) = Some 0
   \<and> cf_input (fst (char_typed, doc1)) = Some input_abc
   \<and> (\<exists>cst'. InlineCharField_onInputType layout0 (char_typed, doc1) = Inr cst'
        \<and> InlineCharField_resizeInput layout0 cst' = Inr cst')
   \<and> (\<exists>cst'. InlineCharField_onInputType layout0 (char_typed, doc1) = Inr cst'
        \<and> cf_sizer (fst cst') = Some 0
        \<and> body_children (snd cst') = body_children (snd (char_typed, doc1))
        \<and> cf_input (fst cst') = Some (input_abc\<lparr>style_width := Px 29\<rparr>))
   \<and> ac_sizer (fst (m2x_blank, doc1)) = Some 0
   \<and> in_container type_ab (ac_container (fst (m2x_blank, doc1)))
        = Some \<lparr>query_input = Some (input_empty\<lparr>input_value := ''ab''\<rparr>)\<rparr>
   \<and> (\<exists>mst'. AutoMany2XAutocomplete_onChange (in_container type_ab) layout0 (m2x_blank, doc1)
          = Inr mst'
        \<and> AutoMany2XAutocomplete_resizeInput layout0 None mst' = Inr mst')
   \<and> (\<exists>mst'. AutoMany2XAutocomplete_onChange (in_container type_ab) layout0 (m2x_blank, doc1)
          = Inr mst'
        \<and> ac_sizer (fst mst') = Some 0
        \<and> ac_container (fst mst') = Some \<lparr>query_input =
              Some (input_empty\<lparr>input_value := ''ab'', style_width :=
                Px (offsetWidth layout0 (spans (snd mst') 0) + 20)\<rparr>)\<rparr>
        \<and> textContent (spans (snd mst') 0) = ''ab'')
   \<and> (\<exists>mst'. AutoMany2XAutocomplete_onSelect (in_container type_ab) layout0 (Some ''Alice'')
          (m2x_blank, doc1) = Inr mst'
        \<and> ac_sizer (fst mst') = Some 0
        \<and> ac_container (fst mst') = Some \<lparr>query_input =
              Some (input_empty\<lparr>input_value := ''ab'', style_width :=
                Px (offsetWidth layout0 (spans (snd mst') 0) + 20)\<rparr>)\<rparr>
        \<and> textContent (spans (snd mst') 0) = ''Alice'')
   \<and> cf_input (fst (char_blank\<lparr>cf_input := None\<rparr>, doc1)) = None
   \<and> InlineCharField_onMounted layout0 (char_blank\<lparr>cf_input := None\<rparr>, doc1)
        = Inr (InlineCharField_createSizer (char_blank\<lparr>cf_input := None\<rparr>, doc1))
   \<and> in_container drop_input (ac_container (fst (m2x_blank, doc1)))
        = Some \<lparr>query_input = None\<rparr>
   \<and> AutoMany2XAutocomplete_onChange (in_container drop_input) layout0 (m2x_blank, doc1)
        = Inr (host_call (in_container drop_input) (m2x_blank, doc1))"
proof -
  note t1 = resize_on_every_event [where env = layout0 and cst = "(char_no_sizer, doc0)"
      and mst = "(m2x_new, doc0)" and cinp = input_empty
      and mc = "\<lparr>query_input = Some input_abc\<rparr>" and minp = input_abc]
  note t2 = resize_on_every_event [where env = layout0 and cst = "(char_typed, doc1)"
      and mst = "(m2x_blank, doc1)" and cinp = input_abc and cs = 0 and ms = 0
      and host = "in_container type_ab" and displayName = "Some ''Alice''"
      and hc = "\<lparr>query_input = Some (input_empty\<lparr>input_value := ''ab''\<rparr>)\<rparr>"
      and hinp = "input_empty\<lparr>input_value := ''ab''\<rparr>"]
  note t3 = resize_on_every_event [where env = layout0
      and cst = "(char_blank\<lparr>cf_input := None\<rparr>, doc1)"
      and mst = "(m2x_blank, doc1)" and host = "in_container drop_input"
      and hc = "\<lparr>query_input = None\<rparr>"]
  note r5 = conjunct2 [THEN conjunct2, THEN conjunct2, THEN conjunct2, THEN conjunct2]
  note r10 = r5 [THEN r5]
  note r15 = r10 [THEN r5]
  have h1: "cf_sizer (fst (char_no_sizer, doc0)) = None"
      "cf_input (fst (char_no_sizer, doc0)) = Some input_empty"
    by (simp_all add: char_no_sizer_def)
  have h2: "ac_sizer (fst (m2x_new, doc0)) = None"
      "ac_container (fst (m2x_new, doc0)) = Some \<lparr>query_input = Some input_abc\<rparr>"
      "ac_container (fst (m2x_new, doc0)) \<noteq> None"
      "query_input \<lparr>query_input = Some input_abc\<rparr> = Some input_abc"
    by (simp_all add: m2x_new_def)
  have h3: "cf_sizer (fst (char_typed, doc1)) = Some 0"
      "cf_input (fst (char_typed, doc1)) = Some input_abc"
      "cf_sizer (fst (char_typed, doc1)) \<noteq> None"
    by (simp_all add: char_typed_def)
  have h4: "ac_sizer (fst (m2x_blank, doc1)) = Some 0"
      "in_container type_ab (ac_container (fst (m2x_blank, doc1)))
        = Some \<lparr>query_input = Some (input_empty\<lparr>input_value := ''ab''\<rparr>)\<rparr>"
      "query_input \<lparr>query_input = Some (input_empty\<lparr>input_value := ''ab''\<rparr>)\<rparr>
        = Some (input_empty\<lparr>input_value := ''ab''\<rparr>)"
      "ac_sizer (fst (m2x_blank, doc1)) \<noteq> None"
      "in_container type_ab (ac_container (fst (m2x_blank, doc1))) \<noteq> None"
    by (simp_all add: m2x_blank_def in_container_def type_ab_def)
  have h5: "cf_input (fst (char_blank\<lparr>cf_input := None\<rparr>, doc1)) = None"
      "in_container drop_input (ac_container (fst (m2x_blank, doc1)))
        = Some \<lparr>query_input = None\<rparr>"
      "query_input \<lparr>query_input = None\<rparr> = None"
    by (simp_all add: m2x_blank_def in_container_def drop_input_def)
  have w1: "\<exists>cst' s. InlineCharField_onMounted layout0 (char_no_sizer, doc0) = Inr cst'
        \<and> cf_sizer (fst cst') = Some s \<and> s \<in> set (body_children (snd cst'))
        \<and> InlineCharField_resizeInput layout0 cst' = Inr cst'"
    using t1 [THEN r5, THEN conjunct1] h1(1) by blast
  have w2: "\<exists>cst' s. InlineCharField_onMounted layout0 (char_no_sizer, doc0) = Inr cst'
        \<and> cf_sizer (fst cst') = Some s
        \<and> cf_input (fst cst') = Some (input_empty\<lparr>style_width :=
              Px (offsetWidth layout0 (spans (snd cst') s) + 10)\<rparr>)
        \<and> textContent (spans (snd cst') s) = ''Name''
        \<and> style_font (spans (snd cst') s) = ''16px serif''"
    using t1 [THEN r10, THEN conjunct2, THEN conjunct1, THEN mp, OF h1(2)]
    by (simp add: input_empty_def)
  have w3: "\<exists>mst' s. AutoMany2XAutocomplete_onMounted layout0 (m2x_new, doc0) = Inr mst'
        \<and> ac_sizer (fst mst') = Some s \<and> s \<in> set (body_children (snd mst'))
        \<and> AutoMany2XAutocomplete_resizeInput layout0 None mst' = Inr mst'"
    using t1 [THEN r5, THEN conjunct2, THEN conjunct2, THEN conjunct1, THEN mp, OF h2(3)] h2(1)
    by blast
  have w4: "\<exists>mst' s. AutoMany2XAutocomplete_onMounted layout0 (m2x_new, doc0) = Inr mst'
        \<and> ac_sizer (fst mst') = Some s
        \<and> ac_container (fst mst') = Some \<lparr>query_input = Some (input_abc\<lparr>style_width :=
              Px (offsetWidth layout0 (spans (snd mst') s) + 20)\<rparr>)\<rparr>
        \<and> textContent (spans (snd mst') s) = ''abc''
        \<and> style_font (spans (snd mst') s) = ''12px sans''"
    using t1 [THEN r10, THEN conjunct2, THEN conjunct2, THEN conjunct2, THEN conjunct1,
        THEN mp, THEN mp, OF h2(2) h2(4)]
    by (simp add: input_abc_def or_str_def)
  have w5: "\<exists>cst'. InlineCharField_onInputType layout0 (char_typed, doc1) = Inr cst'
        \<and> InlineCharField_resizeInput layout0 cst' = Inr cst'"
    using t2 [THEN r5, THEN conjunct2, THEN conjunct1, THEN mp, OF h3(3)] .
  have w6: "\<exists>cst'. InlineCharField_onInputType layout0 (char_typed, doc1) = Inr cst'
        \<and> cf_sizer (fst cst') = Some 0
        \<and> body_children (snd cst') = body_children (snd (char_typed, doc1))
        \<and> cf_input (fst cst') = Some (input_abc\<lparr>style_width := Px 29\<rparr>)"
    using t2 [THEN r10, THEN conjunct2, THEN conjunct2, THEN conjunct1, THEN mp, THEN mp,
        OF h3(2) h3(1)]
    by (simp add: input_abc_def layout0_def)
  have w7: "\<exists>mst'. AutoMany2XAutocomplete_onChange (in_container type_ab) layout0
          (m2x_blank, doc1) = Inr mst'
        \<and> AutoMany2XAutocomplete_resizeInput layout0 None mst' = Inr mst'"
    using t2 [THEN r5, THEN conjunct2, THEN conjunct2, THEN conjunct2, THEN conjunct1,
        THEN mp, THEN mp, OF h4(4) h4(5)] .
  note kk = t2 [THEN r10, THEN conjunct2, THEN conjunct2, THEN conjunct2, THEN conjunct2,
        THEN conjunct1, THEN mp, THEN mp, THEN mp, OF h4(1) h4(2) h4(3)]
  have w8: "\<exists>mst'. AutoMany2XAutocomplete_onChange (in_container type_ab) layout0
          (m2x_blank, doc1) = Inr mst'
        \<and> ac_sizer (fst mst') = Some 0
        \<and> ac_container (fst mst') = Some \<lparr>query_input =
              Some (input_empty\<lparr>input_value := ''ab'', style_width :=
                Px (offsetWidth layout0 (spans (snd mst') 0) + 20)\<rparr>)\<rparr>
        \<and> textContent (spans (snd mst') 0) = ''ab''"
    using kk [THEN conjunct1] by (simp add: input_empty_def or_str_def) blast
  have w9: "\<exists>mst'. AutoMany2XAutocomplete_onSelect (in_container type_ab) layout0
          (Some ''Alice'') (m2x_blank, doc1) = Inr mst'
        \<and> ac_sizer (fst mst') = Some 0
        \<and> ac_container (fst mst') = Some \<lparr>query_input =
              Some (input_empty\<lparr>input_value := ''ab'', style_width :=
                Px (offsetWidth layout0 (spans (snd mst') 0) + 20)\<rparr>)\<rparr>
        \<and> textContent (spans (snd mst') 0) = ''Alice''"
    using kk [THEN conjunct2] by (simp add: input_empty_def or_str_def or_opt_def) blast
  have w10: "InlineCharField_onMounted layout0 (char_blank\<lparr>cf_input := None\<rparr>, doc1)
        = Inr (InlineCharField_createSizer (char_blank\<lparr>cf_input := None\<rparr>, doc1))"
    using t3 [THEN r10, THEN conjunct1, THEN mp, OF h5(1)] by (rule conjunct1)
  have w11: "AutoMany2XAutocomplete_onChange (in_container drop_input) layout0 (m2x_blank, doc1)
        = Inr (host_call (in_container drop_input) (m2x_blank, doc1))"
    using t3 [THEN r15, THEN mp, THEN mp, OF h5(2) h5(3)] by (rule conjunct1)
  show ?thesis
    apply (intro conjI)
                        apply (rule h1(1))
                       apply (rule h1(2))
                      apply (rule w1)
                     apply (rule w2)
                    apply (rule h2(1))
                   apply (rule h2(2))
                  apply (rule w3)
                 apply (rule w4)
                apply (rule h3(1))
               apply (rule h3(2))
              apply (rule w5)
             apply (rule w6)
            apply (rule h4(1))
           apply (rule h4(2))
          apply (rule w7)
         apply (rule w8)
        apply (rule w9)
       apply (rule h5(1))
      apply (rule w10)
     apply (rule h5(2))
    apply (rule w11)
    done
qed

section \<open>Failures of the resize routines\<close>

text \<open>
  Where a resize can raise at all: in the char field when the input is present with an
  empty value and the instance holds no sizer, in the autocomplete when the container
  element is missing or the input is present and the instance holds no sizer.
\<close>

lemma char_resize_fails_iff:
  "(\<exists>e. InlineCharField_resizeInput env (cw, cd) = Inl e) \<longleftrightarrow>
     (cf_sizer cw = None \<and> (\<exists>inp. cf_input cw = Some inp \<and> input_value inp = []))"
  by (auto simp add: InlineCharField_resizeInput_def Let_def split: option.splits)

lemma m2x_resize_fails_iff:
  "(\<exists>e. AutoMany2XAutocomplete_resizeInput env dv (mw, md) = Inl e) \<longleftrightarrow>
     (ac_container mw = None
      \<or> (ac_sizer mw = None \<and> (\<exists>k inp. ac_container mw = Some k \<and> query_input k = Some inp)))"
  by (auto simp add: AutoMany2XAutocomplete_resizeInput_def Let_def split: option.splits)

text \<open>
  No state of a mounted life is such a state: the mount creates the sizer before the
  first resize, and no event takes it away.
\<close>

lemma char_events_succeed:
  "cf_sizer (fst st) \<noteq> None \<Longrightarrow>
   \<exists>st'. InlineCharField_events env edits st = Inr st' \<and> cf_sizer (fst st') = cf_sizer (fst st)"
proof (induction edits arbitrary: st)
  case Nil
  then show ?case by simp
next
  case (Cons edit edits)
  let ?st1 = "((fst st)\<lparr>cf_input := edit (cf_input (fst st))\<rparr>, snd st)"
  from Cons.prems have s1: "cf_sizer (fst ?st1) \<noteq> None"
    by simp
  then obtain st2 where r: "InlineCharField_resizeInput env ?st1 = Inr st2"
    using char_resize_with_sizer by blast
  from char_resize_frame [OF r] have f: "cf_sizer (fst st2) = cf_sizer (fst st)"
    by simp
  with Cons.prems have "cf_sizer (fst st2) \<noteq> None"
    by simp
  from Cons.IH [OF this] f r show ?case
    by (simp add: InlineCharField_onInputType_def)
qed

lemma char_life_succeeds:
  "\<exists>st' s. InlineCharField_life env edits st = Inr st' \<and> cf_sizer (fst st') = Some s"
proof -
  let ?st1 = "InlineCharField_createSizer st"
  have s1: "cf_sizer (fst ?st1) \<noteq> None"
    by (simp add: char_create_sizer split: option.split)
  then obtain st2 where r: "InlineCharField_resizeInput env ?st1 = Inr st2"
    using char_resize_with_sizer by blast
  from char_resize_frame [OF r] s1 have s2: "cf_sizer (fst st2) \<noteq> None"
    by simp
  from char_events_succeed [OF s2, of env edits] s2 r show ?thesis
    by (auto simp add: InlineCharField_life_def InlineCharField_onMounted_def)
qed

lemma m2x_handler_keeps_invariant:
  assumes "ac_sizer (fst st) \<noteq> None" and "ac_container (fst st) \<noteq> None"
    and "\<forall>k. host (Some k) \<noteq> None"
  shows "\<exists>st'. AutoMany2XAutocomplete_resizeInput env dv (host_call host st) = Inr st'
      \<and> ac_sizer (fst st') \<noteq> None \<and> ac_container (fst st') \<noteq> None"
proof -
  from assms(2,3) have c: "ac_container (fst (host_call host st)) \<noteq> None"
    by (auto simp add: host_call_fields)
  from assms(1) have s: "ac_sizer (fst (host_call host st)) \<noteq> None"
    by (simp add: host_call_fields)
  from m2x_resize_with_sizer [OF s c] obtain st' where
    r: "AutoMany2XAutocomplete_resizeInput env dv (host_call host st) = Inr st'"
    by blast
  from m2x_resize_frame [OF r] s have "ac_sizer (fst st') \<noteq> None"
    by simp
  with r m2x_resize_keeps_container [OF r] show ?thesis
    by blast
qed

lemma m2x_events_succeed:
  "ac_sizer (fst st) \<noteq> None \<Longrightarrow> ac_container (fst st) \<noteq> None \<Longrightarrow>
   \<forall>ev \<in> set evs. \<forall>k. event_host ev (Some k) \<noteq> None \<Longrightarrow>
   \<exists>st'. AutoMany2XAutocomplete_events env evs st = Inr st' \<and> ac_sizer (fst st') \<noteq> None"
proof (induction evs arbitrary: st)
  case Nil
  then show ?case by simp
next
  case (Cons ev evs)
  from Cons.prems(3) have rest: "\<forall>ev \<in> set evs. \<forall>k. event_host ev (Some k) \<noteq> None"
    by simp
  show ?case
  proof (cases ev)
    case (Change host)
    with Cons.prems(3) have "\<forall>k. host (Some k) \<noteq> None"
      by simp
    from m2x_handler_keeps_invariant [OF Cons.prems(1,2) this, of env None]
    obtain st2 where r: "AutoMany2XAutocomplete_resizeInput env None (host_call host st) = Inr st2"
      and i: "ac_sizer (fst st2) \<noteq> None" "ac_container (fst st2) \<noteq> None"
      by blast
    from Cons.IH [OF i rest] r Change show ?thesis
      by (simp add: AutoMany2XAutocomplete_onChange_def)
  next
    case (Select host displayName)
    with Cons.prems(3) have "\<forall>k. host (Some k) \<noteq> None"
      by simp
    from m2x_handler_keeps_invariant [OF Cons.prems(1,2) this, of env displayName]
    obtain st2 where
      r: "AutoMany2XAutocomplete_resizeInput env displayName (host_call host st) = Inr st2"
      and i: "ac_sizer (fst st2) \<noteq> None" "ac_container (fst st2) \<noteq> None"
      by blast
    from Cons.IH [OF i rest] r Select show ?thesis
      by (simp add: AutoMany2XAutocomplete_onSelect_def)
  qed
qed

lemma m2x_life_succeeds:
  assumes "ac_container (fst st) \<noteq> None"
    and "\<forall>ev \<in> set evs. \<forall>k. event_host ev (Some k) \<noteq> None"
  shows "\<exists>st' s. AutoMany2XAutocomplete_life env evs st = Inr st' \<and> ac_sizer (fst st') = Some s"
proof -
  let ?st1 = "AutoMany2XAutocomplete_createSizer st"
  have s1: "ac_sizer (fst ?st1) \<noteq> None"
    by (simp add: m2x_create_sizer split: option.split)
  from assms(1) have c1: "ac_container (fst ?st1) \<noteq> None"
    by (simp add: m2x_create_container)
  from m2x_resize_with_sizer [OF s1 c1] obtain st2 where
    r: "AutoMany2XAutocomplete_resizeInput env None ?st1 = Inr st2"
    by blast
  from m2x_resize_frame [OF r] s1 have s2: "ac_sizer (fst st2) \<noteq> None"
    by simp
  from m2x_events_succeed [OF s2 m2x_resize_keeps_container [OF r] assms(2), of env] r
  show ?thesis
    by (auto simp add: AutoMany2XAutocomplete_life_def AutoMany2XAutocomplete_onMounted_def)
qed

text \<open>
  C6. When the input element is absent the resize returns without an error and
  leaves the widget, the input and the document (the sizer with it) as they were. No
  resize of a mounted widget fails: a char field's life, the mount followed by any
  input events with whatever the browser did to the input before each (including
  taking it away), runs to its end without an error, and so does an autocomplete's
  life of changes and selections when the host provides the container element at
  mount and its handlers leave it in place. Each is the case because a resize with the
  sizer created (and the container present) returns a state.
\<close>

theorem resize_never_fails_while_mounted:
  "(cf_input cw = None \<longrightarrow> InlineCharField_resizeInput env (cw, cd) = Inr (cw, cd))
   \<and> (ac_container mw = Some c \<longrightarrow> query_input c = None \<longrightarrow>
        AutoMany2XAutocomplete_resizeInput env dv (mw, md) = Inr (mw, md))
   \<and> (\<exists>cst' s. InlineCharField_life env edits cst = Inr cst' \<and> cf_sizer (fst cst') = Some s)
   \<and> (ac_container (fst mst) \<noteq> None \<longrightarrow>
        (\<forall>ev \<in> set evs. \<forall>k. event_host ev (Some k) \<noteq> None) \<longrightarrow>
        (\<exists>mst' s. AutoMany2XAutocomplete_life env evs mst = Inr mst'
            \<and> ac_sizer (fst mst') = Some s))
   \<and> (cf_sizer cw \<noteq> None \<longrightarrow> (\<exists>st'. InlineCharField_resizeInput env (cw, cd) = Inr st'))
   \<and> (ac_sizer mw \<noteq> None \<longrightarrow> ac_container mw \<noteq> None \<longrightarrow>
        (\<exists>st'. AutoMany2XAutocomplete_resizeInput env dv (mw, md) = Inr st'))"
proof -
  have a: "cf_input cw = None \<longrightarrow> InlineCharField_resizeInput env (cw, cd) = Inr (cw, cd)"
    by (simp add: char_resize_absent)
  have b: "ac_container mw = Some c \<longrightarrow> query_input c = None \<longrightarrow>
        AutoMany2XAutocomplete_resizeInput env dv (mw, md) = Inr (mw, md)"
    by (simp add: m2x_resize_absent)
  have cc: "\<exists>cst' s. InlineCharField_life env edits cst = Inr cst' \<and> cf_sizer (fst cst') = Some s"
    by (rule char_life_succeeds)
  have d: "ac_container (fst mst) \<noteq> None \<longrightarrow>
        (\<forall>ev \<in> set evs. \<forall>k. event_host ev (Some k) \<noteq> None) \<longrightarrow>
        (\<exists>mst' s. AutoMany2XAutocomplete_life env evs mst = Inr mst'
            \<and> ac_sizer (fst mst') = Some s)"
    using m2x_life_succeeds by blast
  have e: "cf_sizer cw \<noteq> None \<longrightarrow> (\<exists>st'. InlineCharField_resizeInput env (cw, cd) = Inr st')"
    using char_resize_with_sizer [of "(cw, cd)" env] by simp
  have f: "ac_sizer mw \<noteq> None \<longrightarrow> ac_container mw \<noteq> None \<longrightarrow>
        (\<exists>st'. AutoMany2XAutocomplete_resizeInput env dv (mw, md) = Inr st')"
    using m2x_resize_with_sizer [of "(mw, md)" env dv] by simp
  show ?thesis
    apply (intro conjI)
         apply (rule a)
        apply (rule b)
       apply (rule cc)
      apply (rule d)
     apply (rule e)
    apply (rule f)
    done
qed

text \<open>
  A char field without sizer, its input empty, is mounted into the empty document;
  the user types \<^verbatim>\<open>ab\<close>, clears the field, and the input goes away. An
  autocomplete is mounted there; a change leaves \<^verbatim>\<open>ab\<close>, a selection of
  \<^verbatim>\<open>Alice\<close> leaves the field empty, a change leaves no input element.
\<close>

theorem resize_never_fails_while_mounted_witness:
  "cf_input (char_blank\<lparr>cf_input := None\<rparr>) = None
   \<and> InlineCharField_resizeInput layout0 (char_blank\<lparr>cf_input := None\<rparr>, doc1)
        = Inr (char_blank\<lparr>cf_input := None\<rparr>, doc1)
   \<and> ac_container (m2x_blank\<lparr>ac_container := Some \<lparr>query_input = None\<rparr>\<rparr>)
        = Some \<lparr>query_input = None\<rparr>
   \<and> AutoMany2XAutocomplete_resizeInput layout0 None
          (m2x_blank\<lparr>ac_container := Some \<lparr>query_input = None\<rparr>\<rparr>, doc1)
        = Inr (m2x_blank\<lparr>ac_container := Some \<lparr>query_input = None\<rparr>\<rparr>, doc1)
   \<and> (\<exists>cst' s. InlineCharField_life layout0 [type_ab, clear_value, drop_input]
          (char_no_sizer, doc0) = Inr cst' \<and> cf_sizer (fst cst') = Some s)
   \<and> ac_container (fst (m2x_new, doc0)) \<noteq> None
   \<and> (\<forall>k. event_host (Change (in_container type_ab)) (Some k) \<noteq> None)
   \<and> (\<forall>k. event_host (Select (in_container clear_value) (Some ''Alice'')) (Some k) \<noteq> None)
   \<and> (\<forall>k. event_host (Change (in_container drop_input)) (Some k) \<noteq> None)
   \<and> (\<exists>mst' s. AutoMany2XAutocomplete_life layout0
          [Change (in_container type_ab), Select (in_container clear_value) (Some ''Alice''),
           Change (in_container drop_input)] (m2x_new, doc0) = Inr mst'
        \<and> ac_sizer (fst mst') = Some s)
   \<and> cf_sizer char_blank \<noteq> None
   \<and> (\<exists>st'. InlineCharField_resizeInput layout0 (char_blank, doc1) = Inr st')
   \<and> ac_sizer m2x_blank \<noteq> None \<and> ac_container m2x_blank \<noteq> None
   \<and> (\<exists>st'. AutoMany2XAutocomplete_resizeInput layout0 (Some ''Alice'') (m2x_blank, doc1)
          = Inr st')"
proof -
  let ?evs = "[Change (in_container type_ab), Select (in_container clear_value) (Some ''Alice''),
           Change (in_container drop_input)]"
  note t1 = resize_never_fails_while_mounted [where env = layout0
      and cw = "char_blank\<lparr>cf_input := None\<rparr>" and cd = doc1
      and mw = "m2x_blank\<lparr>ac_container := Some \<lparr>query_input = None\<rparr>\<rparr>"
      and c = "\<lparr>query_input = None\<rparr>" and dv = None and md = doc1
      and edits = "[type_ab, clear_value, drop_input]" and cst = "(char_no_sizer, doc0)"
      and evs = ?evs and mst = "(m2x_new, doc0)"]
  note t2 = resize_never_fails_while_mounted [where env = layout0
      and cw = char_blank and cd = doc1 and mw = m2x_blank and dv = "Some ''Alice''"
      and md = doc1]
  have h1: "cf_input (char_blank\<lparr>cf_input := None\<rparr>) = None"
    by simp
  have h2: "ac_container (m2x_blank\<lparr>ac_container := Some \<lparr>query_input = None\<rparr>\<rparr>)
        = Some \<lparr>query_input = None\<rparr>"
      "query_input \<lparr>query_input = None\<rparr> = None"
    by simp_all
  have h3: "ac_container (fst (m2x_new, doc0)) \<noteq> None"
    by (simp add: m2x_new_def)
  have k1: "\<forall>k. event_host (Change (in_container type_ab)) (Some k) \<noteq> None"
    and k2: "\<forall>k. event_host (Select (in_container clear_value) (Some ''Alice'')) (Some k) \<noteq> None"
    and k3: "\<forall>k. event_host (Change (in_container drop_input)) (Some k) \<noteq> None"
    by (simp_all add: in_container_def)
  from k1 k2 k3 have h4: "\<forall>ev \<in> set ?evs. \<forall>k. event_host ev (Some k) \<noteq> None"
    by simp
  have h5: "cf_sizer char_blank \<noteq> None"
    by (simp add: char_blank_def)
  have h6: "ac_sizer m2x_blank \<noteq> None" "ac_container m2x_blank \<noteq> None"
    by (simp_all add: m2x_blank_def)
  note w1 = t1 [THEN conjunct1, THEN mp, OF h1]
  note w2 = t1 [THEN conjunct2, THEN conjunct1, THEN mp, THEN mp, OF h2]
  note w3 = t1 [THEN conjunct2, THEN conjunct2, THEN conjunct1]
  note w4 = t1 [THEN conjunct2, THEN conjunct2, THEN conjunct2, THEN conjunct1,
      THEN mp, THEN mp, OF h3 h4]
  note w5 = t2 [THEN conjunct2, THEN conjunct2, THEN conjunct2, THEN conjunct2,
      THEN conjunct1, THEN mp, OF h5]
  note w6 = t2 [THEN conjunct2, THEN conjunct2, THEN conjunct2, THEN conjunct2,
      THEN conjunct2, THEN mp, THEN mp, OF h6]
  show ?thesis
    apply (intro conjI)
                  apply (rule h1)
                 apply (rule w1)
                apply (rule h2(1))
               apply (rule w2)
              apply (rule w3)
             apply (rule h3)
            apply (rule k1)
           apply (rule k2)
          apply (rule k3)
         apply (rule w4)
        apply (rule h5)
       apply (rule w5)
      apply (rule h6(1))
     apply (rule h6(2))
    apply (rule w6)
    done
qed

section \<open>Unmounting\<close>

text \<open>
  The char field's \<^verbatim>\<open>willUnmount\<close> gives the sizer back when it is run: mounting
  an instance that has no sizer into a document whose next node number is unused, and
  running \<^verbatim>\<open>willUnmount\<close>, leaves the children of the body as they were, and a
  second run finds nothing to remove.
\<close>

lemma char_mount_unmount_body:
  assumes "cf_sizer w = None" and "fresh d \<notin> set (body_children d)"
    and "InlineCharField_onMounted env (w, d) = Inr st"
  shows "body_children (snd (InlineCharField_willUnmount host st)) = body_children d"
    and "cf_sizer (fst (InlineCharField_willUnmount host st)) = None"
    and "InlineCharField_willUnmount host2 (InlineCharField_willUnmount host st)
           = (fst (InlineCharField_willUnmount host st)
                \<lparr>cf_input := host2 (cf_input (fst (InlineCharField_willUnmount host st)))\<rparr>,
              snd (InlineCharField_willUnmount host st))"
proof -
  obtain w' d' where st: "st = (w', d')"
    by (cases st)
  from assms(3) have r: "InlineCharField_resizeInput env (InlineCharField_createSizer (w, d))
      = Inr (w', d')"
    by (simp add: InlineCharField_onMounted_def st)
  from char_resize_frame [OF r] assms(1)
  have s: "cf_sizer w' = Some (fresh d)"
    and b: "body_children d' = filter (\<lambda>m. m \<noteq> fresh d) (body_children d) @ [fresh d]"
    by (simp_all add: char_create_sizer char_create_body)
  from assms(2) have f: "filter (\<lambda>m. m \<noteq> fresh d) (body_children d) = body_children d"
    by (auto simp add: filter_id_conv)
  from s b f show "body_children (snd (InlineCharField_willUnmount host st)) = body_children d"
    by (simp add: InlineCharField_willUnmount_def st remove_node_def Let_def)
  from s show n: "cf_sizer (fst (InlineCharField_willUnmount host st)) = None"
    by (simp add: InlineCharField_willUnmount_def st Let_def)
  obtain w2 d2 where u: "InlineCharField_willUnmount host st = (w2, d2)"
    by (cases "InlineCharField_willUnmount host st")
  with n have "cf_sizer w2 = None"
    by simp
  then show "InlineCharField_willUnmount host2 (InlineCharField_willUnmount host st)
           = (fst (InlineCharField_willUnmount host st)
                \<lparr>cf_input := host2 (cf_input (fst (InlineCharField_willUnmount host st)))\<rparr>,
              snd (InlineCharField_willUnmount host st))"
    unfolding u by (simp add: InlineCharField_willUnmount_def Let_def)
qed

text \<open>
  The autocomplete does not: whatever the host's teardown does to the container, the
  sizer created at mount is still the last child of the body after the unmount.
\<close>

lemma m2x_mount_unmount_body:
  assumes "ac_sizer w = None"
    and "AutoMany2XAutocomplete_onMounted env (w, d) = Inr st"
  shows "body_children (snd (AutoMany2XAutocomplete_unmount host st))
           = filter (\<lambda>m. m \<noteq> fresh d) (body_children d) @ [fresh d]"
    and "ac_sizer (fst (AutoMany2XAutocomplete_unmount host st)) = Some (fresh d)"
proof -
  obtain w' d' where st: "st = (w', d')"
    by (cases st)
  from assms(2) have r: "AutoMany2XAutocomplete_resizeInput env None
      (AutoMany2XAutocomplete_createSizer (w, d)) = Inr (w', d')"
    by (simp add: AutoMany2XAutocomplete_onMounted_def st)
  from m2x_resize_frame [OF r] assms(1)
  have s: "ac_sizer w' = Some (fresh d)"
    and b: "body_children d' = filter (\<lambda>m. m \<noteq> fresh d) (body_children d) @ [fresh d]"
    by (simp_all add: m2x_create_sizer m2x_create_body)
  from b show "body_children (snd (AutoMany2XAutocomplete_unmount host st))
           = filter (\<lambda>m. m \<noteq> fresh d) (body_children d) @ [fresh d]"
    by (simp add: AutoMany2XAutocomplete_unmount_def host_call_def st)
  from s show "ac_sizer (fst (AutoMany2XAutocomplete_unmount host st)) = Some (fresh d)"
    by (simp add: AutoMany2XAutocomplete_unmount_def host_call_def st)
qed

lemma char_mounted_sample:
  "InlineCharField_onMounted layout0 (char_no_sizer, doc0)
     = Inr (char_blank\<lparr>cf_input := Some (input_empty\<lparr>style_width := Px 46\<rparr>)\<rparr>,
            doc1\<lparr>spans := (spans doc1)(0 := (spans doc1 0)
               \<lparr>textContent := ''Name'', style_font := ''16px serif''\<rparr>)\<rparr>)"
proof -
  have c: "InlineCharField_createSizer (char_no_sizer, doc0) = (char_blank, doc1)"
    by (simp add: InlineCharField_createSizer_def char_no_sizer_def char_blank_def doc1_def
        createSizer_None doc0_def)
  show ?thesis
    unfolding InlineCharField_onMounted_def c
    by (simp add: char_resize_blank [where s = 0 and inp = input_empty]
        char_blank_def input_empty_def layout0_def doc1_sizer)
qed

lemma m2x_mounted_sample:
  "AutoMany2XAutocomplete_onMounted layout0 (m2x_new, doc0)
     = Inr (\<lparr>ac_container = Some \<lparr>query_input = Some (input_abc\<lparr>style_width := Px 41\<rparr>)\<rparr>,
             ac_sizer = Some 0\<rparr>,
            doc1\<lparr>spans := (spans doc1)(0 := (spans doc1 0)
               \<lparr>textContent := ''abc'', style_font := ''12px sans''\<rparr>)\<rparr>)"
proof -
  have c: "AutoMany2XAutocomplete_createSizer (m2x_new, doc0) = (m2x_new\<lparr>ac_sizer := Some 0\<rparr>, doc1)"
    by (simp add: AutoMany2XAutocomplete_createSizer_def m2x_new_def doc1_def
        createSizer_None doc0_def)
  show ?thesis
    unfolding AutoMany2XAutocomplete_onMounted_def c
    by (simp add: m2x_resize_present [where s = 0 and inp = input_abc
          and c = "\<lparr>query_input = Some input_abc\<rparr>"]
        m2x_new_def input_abc_def layout0_def doc1_sizer or_opt_def or_str_def)
qed

text \<open>
  C2 at a failing input. An autocomplete mounted into the empty document and then
  unmounted leaves its sizer, node 0, in the body and keeps the reference to it; the
  char field's \<^verbatim>\<open>willUnmount\<close>, run on the same document, leaves the body empty
  and drops its reference.
\<close>

theorem AutoMany2XAutocomplete_unmount_leaves_sizer:
  "body_children doc0 = []
   \<and> (case AutoMany2XAutocomplete_onMounted layout0 (m2x_new, doc0) of
         Inl e \<Rightarrow> None
       | Inr st \<Rightarrow> Some (body_children (snd (AutoMany2XAutocomplete_unmount id st)),
                         ac_sizer (fst (AutoMany2XAutocomplete_unmount id st))))
       = Some ([0], Some 0)
   \<and> (case InlineCharField_onMounted layout0 (char_no_sizer, doc0) of
         Inl e \<Rightarrow> None
       | Inr st \<Rightarrow> Some (body_children (snd (InlineCharField_willUnmount id st)),
                         cf_sizer (fst (InlineCharField_willUnmount id st))))
       = Some ([], None)"
  unfolding m2x_mounted_sample char_mounted_sample
  by (simp add: AutoMany2XAutocomplete_unmount_def host_call_def
      InlineCharField_willUnmount_def remove_node_def char_blank_def doc1_eq doc0_def)

section \<open>The fees list view\<close>

text \<open>
  C8. In the view registered as \<^verbatim>\<open>fees_wizard_list\<close> the controller's
  \<^verbatim>\<open>onClickCreate\<close> returns what the action service's \<^verbatim>\<open>doAction\<close> returns for
  \<^verbatim>\<open>openeducat_fees.action_select_fees_term_type\<close>. The host's own create handler
  plays no part: replacing it by any other leaves the registered view the same.
  Everything else of the list view and of its controller is inherited, and no other
  registry key changes.
\<close>

theorem fees_create_opens_wizard:
  "views ''fees_wizard_list'' = None \<longrightarrow>
     (\<exists>v. page_list_module listView views ''fees_wizard_list'' = Some v
        \<and> onClickCreate (Controller v) this
            = doAction (actionService this) ''openeducat_fees.action_select_fees_term_type''
        \<and> controller_class.more (Controller v) = controller_class.more (Controller listView)
        \<and> view_descr.more v = view_descr.more listView)
     \<and> page_list_module
          (listView\<lparr>Controller := (Controller listView)\<lparr>onClickCreate := other\<rparr>\<rparr>) views
         = page_list_module listView views
     \<and> (\<forall>k. k \<noteq> ''fees_wizard_list'' \<longrightarrow> page_list_module listView views k = views k)"
  by (simp add: page_list_module_def registry_add_def PageListView_def PageListController_def)

theorem fees_create_opens_wizard_witness:
  "(Map.empty :: string \<rightharpoonup> (nat, unit, unit) view_descr_scheme) ''fees_wizard_list'' = None
   \<and> onClickCreate (Controller listView0) this0 = 0
   \<and> (\<exists>v. page_list_module listView0 Map.empty ''fees_wizard_list'' = Some v
        \<and> onClickCreate (Controller v) this0 = 44)"
proof -
  have h: "(Map.empty :: string \<rightharpoonup> (nat, unit, unit) view_descr_scheme) ''fees_wizard_list'' = None"
    by simp
  have d: "onClickCreate (Controller listView0) this0 = 0"
    by (simp add: listView0_def)
  have e: "doAction (actionService this0) ''openeducat_fees.action_select_fees_term_type'' = 44"
    by (simp add: this0_def)
  from h fees_create_opens_wizard [of Map.empty listView0 this0]
  have "\<exists>v. page_list_module listView0 Map.empty ''fees_wizard_list'' = Some v
        \<and> onClickCreate (Controller v) this0
            = doAction (actionService this0) ''openeducat_fees.action_select_fees_term_type''"
    by blast
  with h d show ?thesis
    unfolding e by blast
qed

section \<open>The page URL field\<close>

text \<open>
  What \<open>trim\<close> returns: the string without a run of white space at each end, and
  with none left at either end.
\<close>

lemma trim_suffix:
  "dropWhile js_whitespace s
     = trim s @ rev (takeWhile js_whitespace (rev (dropWhile js_whitespace s)))"
proof -
  let ?t = "dropWhile js_whitespace s"
  have "rev (takeWhile js_whitespace (rev ?t) @ dropWhile js_whitespace (rev ?t)) = rev (rev ?t)"
    by (simp only: takeWhile_dropWhile_id)
  then have "rev (dropWhile js_whitespace (rev ?t)) @ rev (takeWhile js_whitespace (rev ?t)) = ?t"
    by (simp only: rev_append rev_rev_ident)
  then show ?thesis
    by (simp only: trim_def)
qed

lemma trim_decomposes:
  "\<exists>a b. s = a @ trim s @ b \<and> list_all js_whitespace a \<and> list_all js_whitespace b"
proof -
  let ?t = "dropWhile js_whitespace s"
  have 1: "s = takeWhile js_whitespace s @ ?t"
    by simp
  have 2: "?t = trim s @ rev (takeWhile js_whitespace (rev ?t))"
    by (rule trim_suffix)
  have 3: "list_all js_whitespace (takeWhile js_whitespace s)"
    by (simp add: list_all_iff) (meson set_takeWhileD)
  have 4: "list_all js_whitespace (rev (takeWhile js_whitespace (rev ?t)))"
    by (simp add: list_all_iff) (meson set_takeWhileD)
  from 1 2 have "s = takeWhile js_whitespace s @ trim s @ rev (takeWhile js_whitespace (rev ?t))"
    by simp
  with 3 4 show ?thesis
    by blast
qed

lemma trim_ends:
  assumes "trim s \<noteq> []"
  shows "\<not> js_whitespace (hd (trim s))" and "\<not> js_whitespace (last (trim s))"
proof -
  let ?t = "dropWhile js_whitespace s"
  let ?u = "dropWhile js_whitespace (rev ?t)"
  from assms have u: "?u \<noteq> []"
    by (simp add: trim_def)
  then have "\<not> js_whitespace (hd ?u)"
    by (rule hd_dropWhile)
  with u show "\<not> js_whitespace (last (trim s))"
    by (simp add: trim_def last_rev)
  have "dropWhile js_whitespace (rev xs) \<noteq> [] \<Longrightarrow> xs \<noteq> []" for xs :: js_string
    by auto
  from this [OF u] have t: "?t \<noteq> []" .
  then have nt: "\<not> js_whitespace (hd ?t)"
    by (rule hd_dropWhile)
  have "?t = trim s @ rev (takeWhile js_whitespace (rev ?t))"
    by (rule trim_suffix)
  with assms have "hd ?t = hd (trim s)"
    by (metis hd_append2)
  with nt show "\<not> js_whitespace (hd (trim s))"
    by simp
qed

text \<open>
  C9. Reading the getter returns the host's value with one leading slash removed when
  it has one and unchanged otherwise, and stores under the field's name a slash
  followed by the trimmed returned value, so the stored value begins with a slash; no
  other entry of the record's data changes.
\<close>

theorem PageUrlField_value_strips_and_stores:
  "(v = slash # fst (PageUrlField_value v p)
      \<or> (fst (PageUrlField_value v p) = v \<and> take 1 v \<noteq> [slash]))
   \<and> record_data (snd (PageUrlField_value v p)) (props_name p)
       = Some (slash # trim (fst (PageUrlField_value v p)))
   \<and> (\<exists>rest. record_data (snd (PageUrlField_value v p)) (props_name p) = Some (slash # rest))
   \<and> (\<forall>k. k \<noteq> props_name p \<longrightarrow>
         record_data (snd (PageUrlField_value v p)) k = record_data p k)
   \<and> props_name (snd (PageUrlField_value v p)) = props_name p"
  by (cases v) (simp_all add: PageUrlField_value_def Let_def)

text \<open>
  Reading \<^verbatim>\<open>"/a "\<close> returns \<^verbatim>\<open>"a "\<close> and stores \<^verbatim>\<open>"/a"\<close>; reading \<^verbatim>\<open>"a "\<close> returns
  it as it is and stores \<^verbatim>\<open>"/a"\<close> as well; another field of the record is left alone.
\<close>

theorem PageUrlField_value_strips_and_stores_witness:
  "url_slash_a = slash # fst (PageUrlField_value url_slash_a url_props0)
   \<and> fst (PageUrlField_value url_slash_a url_props0) = [0x0061, 0x0020]
   \<and> record_data (snd (PageUrlField_value url_slash_a url_props0)) ''url''
       = Some [0x002F, 0x0061]
   \<and> fst (PageUrlField_value [0x0061, 0x0020] url_props0) = [0x0061, 0x0020]
   \<and> take 1 [0x0061, 0x0020] \<noteq> [slash]
   \<and> record_data (snd (PageUrlField_value [0x0061, 0x0020] url_props0)) ''url''
       = Some [0x002F, 0x0061]
   \<and> ''name'' \<noteq> props_name url_props0
   \<and> record_data (snd (PageUrlField_value url_slash_a url_props0)) ''name''
       = record_data url_props0 ''name''"
proof -
  note t1 = PageUrlField_value_strips_and_stores [of url_slash_a url_props0]
  note t2 = PageUrlField_value_strips_and_stores [of "[0x0061, 0x0020]" url_props0]
  have r1: "fst (PageUrlField_value url_slash_a url_props0) = [0x0061, 0x0020]"
    by (simp add: PageUrlField_value_def url_slash_a_def slash_def Let_def)
  have r2: "fst (PageUrlField_value [0x0061, 0x0020] url_props0) = [0x0061, 0x0020]"
    by (simp add: PageUrlField_value_def slash_def Let_def)
  have n: "take 1 [0x0061, 0x0020] \<noteq> [slash]"
    by (simp add: slash_def)
  have tr: "slash # trim [0x0061, 0x0020] = [0x002F, 0x0061]"
    by (simp add: trim_def js_whitespace_def slash_def)
  have nm: "props_name url_props0 = ''url''" "''name'' \<noteq> props_name url_props0"
    by (simp_all add: url_props0_def)
  have a: "url_slash_a = slash # fst (PageUrlField_value url_slash_a url_props0)"
    unfolding r1 by (simp add: url_slash_a_def slash_def)
  from t1 have b: "record_data (snd (PageUrlField_value url_slash_a url_props0)) ''url''
       = Some [0x002F, 0x0061]"
    unfolding r1 nm tr by blast
  from t2 have c: "record_data (snd (PageUrlField_value [0x0061, 0x0020] url_props0)) ''url''
       = Some [0x002F, 0x0061]"
    unfolding r2 nm tr by blast
  from t1 nm have d: "record_data (snd (PageUrlField_value url_slash_a url_props0)) ''name''
       = record_data url_props0 ''name''"
    by blast
  from a r1 b r2 n c nm d show ?thesis
    by blast
qed

section \<open>The fees terms display\<close>

lemma truthy_js_or: "truthy (js_or a b) \<longleftrightarrow> truthy a \<or> truthy b"
  by (simp add: js_or_def)

lemma spec_terms_map_filter:
  "spec_terms d sel =
     map (\<lambda>item. \<lparr>term_value = item_at item 0, term_label = item_at item 1,
                   term_description = js_or d (Str [])\<rparr>)
         (filter (\<lambda>item. truthy (js_or (item_at item 0) (item_at item 1))) sel)"
  by (induction sel) (simp_all add: truthy_js_or js_or_def)

lemma setup_terms:
  "fees_fields props (fees_name props) = Some f \<Longrightarrow> selection f = Some sel \<Longrightarrow>
   FeesTermsDisplay_setup props =
     Inr (spec_terms (js_get (fees_data props) ''fees_terms_description'') sel)"
  by (simp add: FeesTermsDisplay_setup_def spec_terms_map_filter)

lemma spec_terms_entries:
  "map (\<lambda>t. (term_value t, term_label t)) (spec_terms d sel) =
     filter (\<lambda>e. truthy (fst e) \<or> truthy (snd e)) (map (\<lambda>item. (item_at item 0, item_at item 1)) sel)"
  by (induction sel) simp_all

lemma spec_terms_description:
  "t \<in> set (spec_terms d sel) \<Longrightarrow> term_description t = (if truthy d then d else Str [])"
  by (induction sel) (auto split: if_splits)

text \<open>
  C10. For a selection field, \<^verbatim>\<open>setup\<close> stores the list the specification describes.
  Its value and label pairs are the selection's pairs with a truthy value or label, in
  the selection's order, and every description is the record's
  \<^verbatim>\<open>fees_terms_description\<close> when that is truthy and the empty string otherwise.
\<close>

theorem FeesTermsDisplay_setup_terms:
  "fees_fields props (fees_name props) = Some f \<longrightarrow> selection f = Some sel \<longrightarrow>
     (\<exists>ts. FeesTermsDisplay_setup props = Inr ts
        \<and> ts = spec_terms (js_get (fees_data props) ''fees_terms_description'') sel
        \<and> map (\<lambda>t. (term_value t, term_label t)) ts
            = filter (\<lambda>e. truthy (fst e) \<or> truthy (snd e))
                (map (\<lambda>item. (item_at item 0, item_at item 1)) sel)
        \<and> subseq (map (\<lambda>t. (term_value t, term_label t)) ts)
            (map (\<lambda>item. (item_at item 0, item_at item 1)) sel)
        \<and> (\<forall>t \<in> set ts. term_description t =
              (if truthy (js_get (fees_data props) ''fees_terms_description'')
               then js_get (fees_data props) ''fees_terms_description'' else Str [])))"
proof (intro impI)
  assume h: "fees_fields props (fees_name props) = Some f" "selection f = Some sel"
  let ?d = "js_get (fees_data props) ''fees_terms_description''"
  let ?ts = "spec_terms ?d sel"
  from h have 1: "FeesTermsDisplay_setup props = Inr ?ts"
    by (rule setup_terms)
  have 2: "map (\<lambda>t. (term_value t, term_label t)) ?ts
            = filter (\<lambda>e. truthy (fst e) \<or> truthy (snd e))
                (map (\<lambda>item. (item_at item 0, item_at item 1)) sel)"
    by (rule spec_terms_entries)
  have 3: "subseq (map (\<lambda>t. (term_value t, term_label t)) ?ts)
            (map (\<lambda>item. (item_at item 0, item_at item 1)) sel)"
    unfolding 2 by (rule subseq_filter_left)
  have 4: "\<forall>t \<in> set ?ts. term_description t = (if truthy ?d then ?d else Str [])"
    using spec_terms_description by blast
  from 1 2 3 4
  show "\<exists>ts. FeesTermsDisplay_setup props = Inr ts
        \<and> ts = spec_terms ?d sel
        \<and> map (\<lambda>t. (term_value t, term_label t)) ts
            = filter (\<lambda>e. truthy (fst e) \<or> truthy (snd e))
                (map (\<lambda>item. (item_at item 0, item_at item 1)) sel)
        \<and> subseq (map (\<lambda>t. (term_value t, term_label t)) ts)
            (map (\<lambda>item. (item_at item 0, item_at item 1)) sel)
        \<and> (\<forall>t \<in> set ts. term_description t = (if truthy ?d then ?d else Str []))"
    by blast
qed

theorem FeesTermsDisplay_setup_terms_witness:
  "fees_fields fees_props0 (fees_name fees_props0)
     = Some \<lparr>selection = Some [[Str ''fixed_days'', Str ''Fixed Days''],
                               [Bool False, Str []],
                               [Str [], Str ''Other'']]\<rparr>
   \<and> FeesTermsDisplay_setup fees_props0
       = Inr [\<lparr>term_value = Str ''fixed_days'', term_label = Str ''Fixed Days'',
               term_description = Str []\<rparr>,
              \<lparr>term_value = Str [], term_label = Str ''Other'', term_description = Str []\<rparr>]"
proof -
  let ?sel = "[[Str ''fixed_days'', Str ''Fixed Days''], [Bool False, Str []],
               [Str [], Str ''Other'']]"
  have h: "fees_fields fees_props0 (fees_name fees_props0) = Some \<lparr>selection = Some ?sel\<rparr>"
      "selection \<lparr>selection = Some ?sel\<rparr> = Some ?sel"
    by (simp_all add: fees_props0_def)
  have d: "js_get (fees_data fees_props0) ''fees_terms_description'' = Bool False"
    by (simp add: fees_props0_def js_get_def)
  have e: "spec_terms (Bool False) ?sel
       = [\<lparr>term_value = Str ''fixed_days'', term_label = Str ''Fixed Days'',
               term_description = Str []\<rparr>,
              \<lparr>term_value = Str [], term_label = Str ''Other'', term_description = Str []\<rparr>]"
    by (simp add: item_at_def)
  from h FeesTermsDisplay_setup_terms [of fees_props0 "\<lparr>selection = Some ?sel\<rparr>" ?sel]
  have "FeesTermsDisplay_setup fees_props0
       = Inr (spec_terms (js_get (fees_data fees_props0) ''fees_terms_description'') ?sel)"
    by blast
  with h(1) show ?thesis
    unfolding d e by blast
qed

end

